theory Spec2Isabelle
  imports Main "HOL-Library.Word" "HOL-Library.Sublist"
begin

section \<open>JavaScript strings\<close>

text \<open>
  The program is TypeScript run by Deno. A JavaScript string is a sequence of UTF-16
  code units; \<open>length\<close>, regular expressions without the \<open>u\<close> flag and \<open>split\<close> all
  work on code units. A code unit is a 16-bit word. ASCII literals of the source are
  written with \<open>js\<close>.
\<close>

type_synonym jschar = "16 word"
type_synonym jsstring = "jschar list"

definition js :: "string \<Rightarrow> jsstring" where
  "js s = map (\<lambda>c. of_nat (of_char c)) s"

definition is_digit :: "jschar \<Rightarrow> bool" where
  "is_digit c = (0x30 \<le> c \<and> c \<le> 0x39)"

definition is_lower :: "jschar \<Rightarrow> bool" where
  "is_lower c = (0x61 \<le> c \<and> c \<le> 0x7A)"

definition is_upper :: "jschar \<Rightarrow> bool" where
  "is_upper c = (0x41 \<le> c \<and> c \<le> 0x5A)"

definition is_ascii :: "jschar \<Rightarrow> bool" where
  "is_ascii c = (c < 0x80)"

definition underscore :: jschar where
  "underscore = 0x5F"

text \<open>
  Case conversion follows the Unicode tables of the runtime, which are no part of the
  repository. On ASCII the tables are fixed (\<open>a\<close>..\<open>z\<close> and \<open>A\<close>..\<open>Z\<close> are exchanged by
  adding or subtracting 32, every other ASCII code unit is its own image); beyond ASCII
  they are a parameter: \<open>upper_table\<close> gives \<open>String.prototype.toUpperCase\<close> of a
  one-code-unit string, \<open>lower_table\<close> gives \<open>String.prototype.toLowerCase\<close> of a
  string that holds a non-ASCII code unit (the conversion may change the length
  there, and looks at neighbouring code units).
\<close>

record unicode_data =
  upper_table :: "jschar \<Rightarrow> jsstring"
  lower_table :: "jsstring \<Rightarrow> jsstring"

definition ascii_upper :: "jschar \<Rightarrow> jschar" where
  "ascii_upper c = (if is_lower c then c - 32 else c)"

definition ascii_lower :: "jschar \<Rightarrow> jschar" where
  "ascii_lower c = (if is_upper c then c + 32 else c)"

definition toUpperCase1 :: "unicode_data \<Rightarrow> jschar \<Rightarrow> jsstring" where
  "toUpperCase1 ud c = (if is_ascii c then [ascii_upper c] else upper_table ud c)"

definition toLowerCase :: "unicode_data \<Rightarrow> jsstring \<Rightarrow> jsstring" where
  "toLowerCase ud s = (if list_all is_ascii s then map ascii_lower s else lower_table ud s)"

section \<open>The regular expression of \<open>sanitizeFilename\<close>\<close>

text \<open>
  \<^verbatim>\<open>/[^a-z0-9]/gi\<close> is a negated character class with the flags \<open>g\<close> and \<open>i\<close> and
  without \<open>u\<close>. ECMAScript matches a class against one code unit \<open>ch\<close>: the class
  holds \<open>ch\<close> when some member \<open>a\<close> of it has \<open>Canonicalize(a) = Canonicalize(ch)\<close>, and
  the negation inverts the answer. Without \<open>u\<close>, \<open>Canonicalize\<close> upper-cases the code
  unit, keeps it when the result is not one code unit, and keeps it when it is not
  ASCII but its upper case is.
\<close>

definition canonicalize :: "unicode_data \<Rightarrow> jschar \<Rightarrow> jschar" where
  "canonicalize ud ch =
     (case toUpperCase1 ud ch of
        [cu] \<Rightarrow> if \<not> is_ascii ch \<and> is_ascii cu then ch else cu
      | _ \<Rightarrow> ch)"

text \<open>The members of \<open>a-z0-9\<close>, in the order of the class.\<close>

definition class_a_z_0_9 :: "jschar list" where
  "class_a_z_0_9 = map of_nat ([97..<123] @ [48..<58])"

definition class_matches :: "unicode_data \<Rightarrow> jschar list \<Rightarrow> jschar \<Rightarrow> bool" where
  "class_matches ud members ch =
     (canonicalize ud ch \<in> set (map (canonicalize ud) members))"

definition not_a_z_0_9_i :: "unicode_data \<Rightarrow> jschar \<Rightarrow> bool" where
  "not_a_z_0_9_i ud ch = (\<not> class_matches ud class_a_z_0_9 ch)"

text \<open>
  \<open>s.replace(re, r)\<close> for a global \<open>re\<close> that matches exactly one code unit at a time
  and a replacement \<open>r\<close> without \<open>$\<close>: every matching code unit becomes \<open>r\<close>, the others
  stay.
\<close>

definition replace_units :: "(jschar \<Rightarrow> bool) \<Rightarrow> jsstring \<Rightarrow> jsstring \<Rightarrow> jsstring" where
  "replace_units matches r s = concat (map (\<lambda>c. if matches c then r else [c]) s)"

text \<open>
  \<^verbatim>\<open>function sanitizeFilename(filename: string): string {
    return filename.replace(/[^a-z0-9]/gi, '_').toLowerCase();
  }\<close>
\<close>

definition sanitizeFilename :: "unicode_data \<Rightarrow> jsstring \<Rightarrow> jsstring" where
  "sanitizeFilename ud filename =
     toLowerCase ud (replace_units (not_a_z_0_9_i ud) [underscore] filename)"

text \<open>
  The sanitizer as the specification words it: every character outside \<open>[a-z0-9]\<close>,
  compared without regard to case, becomes \<open>_\<close>, and the result is lower-cased.
\<close>

definition is_alnum :: "jschar \<Rightarrow> bool" where
  "is_alnum c = (is_digit c \<or> is_lower c \<or> is_upper c)"

definition spec_sanitize :: "jsstring \<Rightarrow> jsstring" where
  "spec_sanitize s = map (\<lambda>c. if is_alnum c then ascii_lower c else underscore) s"

text \<open>The code units of \<^verbatim>\<open>^[a-z0-9_]*$\<close>.\<close>

definition is_safe_unit :: "jschar \<Rightarrow> bool" where
  "is_safe_unit c = (is_lower c \<or> is_digit c \<or> c = underscore)"

section \<open>JavaScript values, exceptions and conversions\<close>

text \<open>
  The parsed feed is typed \<open>any\<close>, so the model keeps the dynamic values: what the XML
  library (\<^verbatim>\<open>deno.land/x/xml@2.1.1\<close>, no part of the repository) can put into its
  result. A Number is represented by its string form (\<open>ToString\<close>), which determines it
  up to the sign of zero: \<open>VNum (js ''42'')\<close>, \<open>VNum (js ''0'')\<close>, \<open>VNum (js ''NaN'')\<close>. An
  object is the list of its own properties.
\<close>

datatype jsval =
    VUndefined
  | VNull
  | VBool bool
  | VNum jsstring
  | VStr jsstring
  | VObj "(jsstring \<times> jsval) list"
  | VArr "jsval list"

text \<open>
  A thrown value is an instance of \<open>Error\<close> with its \<open>message\<close>, or any other value
  with its string form \<open>String(v)\<close>. \<open>message_of\<close> is the expression both handlers of
  the program use: \<^verbatim>\<open>error instanceof Error ? error.message : String(error)\<close>.
\<close>

datatype thrown = ErrorInstance jsstring | OtherThrown jsstring

fun message_of :: "thrown \<Rightarrow> jsstring" where
  "message_of (ErrorInstance m) = m"
| "message_of (OtherThrown s) = s"

text \<open>A computation that returns or throws; \<open>Inl\<close> is the exception.\<close>

definition bind_exn :: "thrown + 'a \<Rightarrow> ('a \<Rightarrow> thrown + 'b) \<Rightarrow> thrown + 'b" where
  "bind_exn m f = (case m of Inl e \<Rightarrow> Inl e | Inr x \<Rightarrow> f x)"

fun sequence_exn :: "(thrown + 'a) list \<Rightarrow> thrown + 'a list" where
  "sequence_exn [] = Inr []"
| "sequence_exn (m # ms) =
     (case m of
        Inl e \<Rightarrow> Inl e
      | Inr x \<Rightarrow> (case sequence_exn ms of Inl e \<Rightarrow> Inl e | Inr xs \<Rightarrow> Inr (x # xs)))"

text \<open>The \<open>TypeError\<close>s of the engine (V8's messages).\<close>

definition quote :: jschar where
  "quote = 0x27"

definition cannot_read :: "jsval \<Rightarrow> jsstring \<Rightarrow> thrown" where
  "cannot_read base key =
     ErrorInstance (js ''Cannot read properties of ''
       @ (if base = VNull then js ''null'' else js ''undefined'')
       @ js '' (reading '' @ [quote] @ key @ [quote] @ js '')'')"

definition not_a_function :: "jsstring \<Rightarrow> thrown" where
  "not_a_function expr = ErrorInstance (expr @ js '' is not a function'')"

definition cannot_convert :: thrown where
  "cannot_convert = ErrorInstance (js ''Cannot convert object to primitive value'')"

text \<open>
  \<open>v[key]\<close> and \<open>v.key\<close>. Reading a property of \<open>undefined\<close> or \<open>null\<close> throws; an object
  gives its own property or \<open>undefined\<close>. The keys this program reads on a value that
  may be a string, a number, a boolean or an array (\<open>title\<close>, \<open>guid\<close>, \<open>#text\<close>, \<open>@href\<close>,
  \<open>@url\<close>, \<open>rss\<close>, \<open>channel\<close>, \<open>item\<close>) are no properties of their prototypes, so such a
  read gives \<open>undefined\<close>.
\<close>

fun get_prop :: "jsval \<Rightarrow> jsstring \<Rightarrow> thrown + jsval" where
  "get_prop VUndefined key = Inl (cannot_read VUndefined key)"
| "get_prop VNull key = Inl (cannot_read VNull key)"
| "get_prop (VObj props) key =
     Inr (case map_of props key of Some v \<Rightarrow> v | None \<Rightarrow> VUndefined)"
| "get_prop v key = Inr VUndefined"

text \<open>\<open>v?.[key]\<close>: \<open>undefined\<close> when \<open>v\<close> is \<open>undefined\<close> or \<open>null\<close>.\<close>

definition get_prop_optional :: "jsval \<Rightarrow> jsstring \<Rightarrow> thrown + jsval" where
  "get_prop_optional v key =
     (if v = VUndefined \<or> v = VNull then Inr VUndefined else get_prop v key)"

fun ToBoolean :: "jsval \<Rightarrow> bool" where
  "ToBoolean VUndefined = False"
| "ToBoolean VNull = False"
| "ToBoolean (VBool b) = b"
| "ToBoolean (VNum n) = (n \<noteq> js ''0'' \<and> n \<noteq> js ''NaN'')"
| "ToBoolean (VStr s) = (s \<noteq> [])"
| "ToBoolean (VObj props) = True"
| "ToBoolean (VArr xs) = True"

text \<open>\<open>a || b\<close>, both operands already evaluated (the right one has no effect here).\<close>

definition js_or :: "jsval \<Rightarrow> jsval \<Rightarrow> jsval" where
  "js_or a b = (if ToBoolean a then a else b)"

fun intercalate :: "'a list \<Rightarrow> 'a list list \<Rightarrow> 'a list" where
  "intercalate sep [] = []"
| "intercalate sep [x] = x"
| "intercalate sep (x # y # ys) = x @ sep @ intercalate sep (y # ys)"

text \<open>
  \<open>ToString\<close>, as a template literal and \<open>parseInt\<close> apply it. A plain object converts
  through \<open>Object.prototype.toString\<close>, unless an own property \<open>toString\<close> (never a
  function in a parsed document) shadows it: then the conversion throws. An array
  joins its elements with commas, \<open>undefined\<close> and \<open>null\<close> as the empty string.
\<close>

fun ToString :: "jsval \<Rightarrow> thrown + jsstring" where
  "ToString VUndefined = Inr (js ''undefined'')"
| "ToString VNull = Inr (js ''null'')"
| "ToString (VBool b) = Inr (if b then js ''true'' else js ''false'')"
| "ToString (VNum n) = Inr n"
| "ToString (VStr s) = Inr s"
| "ToString (VObj props) =
     (if map_of props (js ''toString'') = None then Inr (js ''[object Object]'')
      else Inl cannot_convert)"
| "ToString (VArr xs) =
     bind_exn
       (sequence_exn
          (map (\<lambda>x. if x = VUndefined \<or> x = VNull then Inr [] else ToString x) xs))
       (\<lambda>parts. Inr (intercalate (js '','') parts))"

section \<open>\<open>parseInt\<close>\<close>

text \<open>
  The result of \<open>parseInt\<close> is a Number, an IEEE 754 double: \<open>NaN\<close>, an infinity, the
  negative zero, or a double whose value is an integer. \<open>Integer n\<close> is the double of
  the value \<open>n\<close>, for an \<open>n\<close> that a double can hold.
\<close>

datatype jsnumber = NaN | PosInfinity | NegInfinity | NegZero | Integer int

text \<open>The number of binary digits of \<open>n\<close>.\<close>

fun bit_length :: "nat \<Rightarrow> nat" where
  "bit_length n = (if n = 0 then 0 else Suc (bit_length (n div 2)))"

declare bit_length.simps [simp del]

text \<open>
  The Number for a mathematical integer \<open>n \<ge> 0\<close>: \<open>n\<close> itself when it fits the 53 bits of
  a significand; otherwise \<open>n\<close> is rounded to 53 significant bits, to the nearest and
  to the even significand on a tie, and a result of \<open>2^1024\<close> or more is \<open>None\<close>, the
  infinity.
\<close>

definition round_to_double :: "nat \<Rightarrow> nat option" where
  "round_to_double n =
     (if n < 2 ^ 53 then Some n
      else
        (let e = bit_length n - 53;
             q = n div 2 ^ e;
             r = n mod 2 ^ e;
             half = 2 ^ (e - 1);
             q = (if half < r \<or> (r = half \<and> odd q) then q + 1 else q)
         in if 2 ^ 1024 \<le> q * 2 ^ e then None else Some (q * 2 ^ e)))"

definition to_number :: "bool \<Rightarrow> nat \<Rightarrow> jsnumber" where
  "to_number negative n =
     (if n = 0 then (if negative then NegZero else Integer 0)
      else (case round_to_double n of
              None \<Rightarrow> (if negative then NegInfinity else PosInfinity)
            | Some m \<Rightarrow> Integer (if negative then - int m else int m)))"

text \<open>White space and line terminators, as \<open>parseInt\<close> strips them from the front.\<close>

definition is_white :: "jschar \<Rightarrow> bool" where
  "is_white c =
     (c \<in> {0x09, 0x0A, 0x0B, 0x0C, 0x0D, 0x20, 0xA0, 0x1680, 0x2028, 0x2029, 0x202F,
            0x205F, 0x3000, 0xFEFF}
      \<or> (0x2000 \<le> c \<and> c \<le> 0x200A))"

definition digit_value :: "jschar \<Rightarrow> nat" where
  "digit_value c =
     (if is_digit c then unat c - 0x30
      else if is_lower c then unat c - 0x61 + 10
      else if is_upper c then unat c - 0x41 + 10
      else 36)"

definition digits_value :: "nat \<Rightarrow> jsstring \<Rightarrow> nat" where
  "digits_value radix ds = foldl (\<lambda>acc c. acc * radix + digit_value c) 0 ds"

text \<open>
  \<open>parseInt(string)\<close> without a radix: the white space at the front is stripped, a sign
  is taken, \<open>0x\<close> or \<open>0X\<close> selects the radix 16, the longest run of digits of the radix
  is read, and the result is the Number for the integer they denote (\<open>NaN\<close> when there
  is no digit). V8 rounds the integer of a long run of decimal digits correctly.
\<close>

definition parseInt_string :: "jsstring \<Rightarrow> jsnumber" where
  "parseInt_string input =
     (let s = dropWhile is_white input;
          negative = (s \<noteq> [] \<and> hd s = 0x2D);
          s = (if s \<noteq> [] \<and> (hd s = 0x2B \<or> hd s = 0x2D) then tl s else s);
          hex = (take 2 s = js ''0x'' \<or> take 2 s = js ''0X'');
          radix = (if hex then 16 else 10);
          s = (if hex then drop 2 s else s);
          z = takeWhile (\<lambda>c. digit_value c < radix) s
      in if z = [] then NaN else to_number negative (digits_value radix z))"

text \<open>\<open>parseInt(v)\<close> converts its argument with \<open>ToString\<close> first.\<close>

definition parseInt :: "jsval \<Rightarrow> thrown + jsnumber" where
  "parseInt v = bind_exn (ToString v) (\<lambda>s. Inr (parseInt_string s))"

section \<open>The data of the program\<close>

text \<open>
  \<^verbatim>\<open>interface PodcastEpisode { title: string; guid: string; pubDate: string;
    duration: string; description: string; link: string; imageUrl: string;
    audioUrl: string; season?: number; episode?: number; }\<close>
  The declared types are not checked at run time: a field read from the feed holds
  whatever value the parsed document has there. The object literal of \<open>parseRSSFeed\<close>
  sets all ten properties, \<open>season\<close> and \<open>episode\<close> too: an episode always has them, and
  their value is \<open>undefined\<close> or a Number. (\<open>JSON.stringify\<close> leaves a property out whose
  value is \<open>undefined\<close>.)
\<close>

datatype optional_number = Undefined | Number jsnumber

record PodcastEpisode =
  title :: jsval
  guid :: jsval
  pubDate :: jsval
  duration :: jsval
  description :: jsval
  link :: jsval
  imageUrl :: jsval
  audioUrl :: jsval
  season :: optional_number
  episode :: optional_number

text \<open>\<^verbatim>\<open>interface DownloadResult { success: boolean; error?: string; }\<close>\<close>

record DownloadResult =
  success :: bool
  error :: "jsstring option"

section \<open>The environment\<close>

text \<open>
  Everything the program does to the outside is a call of the runtime or of a
  library: \<open>fetch\<close>, \<open>Deno.writeFile\<close>, \<open>Deno.writeTextFile\<close>, \<open>ensureDir\<close>, \<open>console\<close>.
  The world holds the files written so far and the trace of the calls made, in order.
\<close>

type_synonym bytes = "8 word list"

datatype file_content = Bytes bytes | Text jsstring

datatype event =
    ConsoleLog jsstring
  | ConsoleError "jsstring list"
  | EnsureDir jsstring
  | Fetch jsval
  | WriteFile jsstring bytes
  | WriteTextFile jsstring jsstring

record world =
  files :: "jsstring \<rightharpoonup> file_content"
  trace :: "event list"

text \<open>
  What \<open>fetch\<close> resolves to: \<open>ok\<close>, \<open>status\<close> and \<open>statusText\<close>, and the outcome of reading
  the body with \<open>arrayBuffer()\<close> or with \<open>text()\<close>, each of which may throw.
\<close>

record response =
  ok :: bool
  status :: nat
  statusText :: jsstring
  arrayBuffer :: "thrown + bytes"
  text_of :: "thrown + jsstring"

text \<open>
  How the environment answers is a parameter of every theorem. An answer may depend
  on the whole history of calls (the trace at the time of the call) besides the
  arguments, so the same URL may answer differently the second time. A call of the
  file system that fails leaves the files as they were.
  \<^item> \<open>fetch\<close>: the promise rejects (\<open>Inl\<close>) or resolves to a response;
  \<^item> \<open>writeFile_fault\<close>, \<open>writeTextFile_fault\<close>, \<open>ensureDir_fault\<close>: the exception the
    call throws, if it throws;
  \<^item> \<open>parseXml\<close>: the XML library's \<open>parse\<close>, which throws or returns the document;
  \<^item> \<open>path_join\<close>: \<open>join\<close> of the standard library's path module;
  \<^item> \<open>JSON_stringify\<close>: \<open>JSON.stringify(episode, null, 2)\<close>;
  \<^item> \<open>unicode\<close>: the case tables.
\<close>

record runtime =
  unicode :: unicode_data
  fetch :: "event list \<Rightarrow> jsval \<Rightarrow> thrown + response"
  writeFile_fault :: "event list \<Rightarrow> jsstring \<Rightarrow> bytes \<Rightarrow> thrown option"
  writeTextFile_fault :: "event list \<Rightarrow> jsstring \<Rightarrow> jsstring \<Rightarrow> thrown option"
  ensureDir_fault :: "event list \<Rightarrow> jsstring \<Rightarrow> thrown option"
  parseXml :: "jsstring \<Rightarrow> thrown + jsval"
  path_join :: "jsstring \<Rightarrow> jsstring \<Rightarrow> jsstring"
  JSON_stringify :: "PodcastEpisode \<Rightarrow> jsstring"

text \<open>
  An effectful computation takes the world and returns a value or an exception,
  with the world as it has become. \<open>await\<close> on a rejected promise throws, so an
  \<open>async\<close> function is such a computation as well.
\<close>

type_synonym 'a io = "world \<Rightarrow> (thrown + 'a) \<times> world"

definition io_return :: "'a \<Rightarrow> 'a io" where
  "io_return x w = (Inr x, w)"

definition io_throw :: "thrown \<Rightarrow> 'a io" where
  "io_throw e w = (Inl e, w)"

definition io_bind :: "'a io \<Rightarrow> ('a \<Rightarrow> 'b io) \<Rightarrow> 'b io" where
  "io_bind m f w = (case m w of (Inl e, w') \<Rightarrow> (Inl e, w') | (Inr x, w') \<Rightarrow> f x w')"

definition io_lift :: "thrown + 'a \<Rightarrow> 'a io" where
  "io_lift r w = (r, w)"

text \<open>\<^verbatim>\<open>try { body } catch (error) { handler }\<close>\<close>

definition try_catch :: "'a io \<Rightarrow> (thrown \<Rightarrow> 'a io) \<Rightarrow> 'a io" where
  "try_catch body handler w =
     (case body w of (Inl e, w') \<Rightarrow> handler e w' | (Inr x, w') \<Rightarrow> (Inr x, w'))"

definition emit :: "event \<Rightarrow> world \<Rightarrow> world" where
  "emit ev w = w\<lparr>trace := trace w @ [ev]\<rparr>"

definition console_log :: "jsstring \<Rightarrow> unit io" where
  "console_log line w = (Inr (), emit (ConsoleLog line) w)"

definition console_error :: "jsstring list \<Rightarrow> unit io" where
  "console_error args w = (Inr (), emit (ConsoleError args) w)"

text \<open>
  \<^verbatim>\<open>console.log(`before${v}`)\<close>: the template literal converts \<open>v\<close> with \<open>ToString\<close>
  first, which may throw.
\<close>

definition console_log_with :: "jsstring \<Rightarrow> jsval \<Rightarrow> unit io" where
  "console_log_with before v =
     io_bind (io_lift (ToString v)) (\<lambda>s. console_log (before @ s))"

definition do_fetch :: "runtime \<Rightarrow> jsval \<Rightarrow> response io" where
  "do_fetch rt url w = (fetch rt (trace w) url, emit (Fetch url) w)"

definition do_ensureDir :: "runtime \<Rightarrow> jsstring \<Rightarrow> unit io" where
  "do_ensureDir rt dir w =
     (case ensureDir_fault rt (trace w) dir of
        Some e \<Rightarrow> (Inl e, emit (EnsureDir dir) w)
      | None \<Rightarrow> (Inr (), emit (EnsureDir dir) w))"

definition do_writeFile :: "runtime \<Rightarrow> jsstring \<Rightarrow> bytes \<Rightarrow> unit io" where
  "do_writeFile rt path fileData w =
     (case writeFile_fault rt (trace w) path fileData of
        Some e \<Rightarrow> (Inl e, emit (WriteFile path fileData) w)
      | None \<Rightarrow>
          (Inr (), emit (WriteFile path fileData) (w\<lparr>files := (files w)(path \<mapsto> Bytes fileData)\<rparr>)))"

definition do_writeTextFile :: "runtime \<Rightarrow> jsstring \<Rightarrow> jsstring \<Rightarrow> unit io" where
  "do_writeTextFile rt path content w =
     (case writeTextFile_fault rt (trace w) path content of
        Some e \<Rightarrow> (Inl e, emit (WriteTextFile path content) w)
      | None \<Rightarrow>
          (Inr (), emit (WriteTextFile path content) (w\<lparr>files := (files w)(path \<mapsto> Text content)\<rparr>)))"

section \<open>\<open>downloadFile\<close>\<close>

text \<open>A non-negative integer as a template literal prints it: in decimal.\<close>

fun decimal :: "nat \<Rightarrow> jsstring" where
  "decimal n =
     (if n < 10 then [of_nat (48 + n)]
      else decimal (n div 10) @ [of_nat (48 + n mod 10)])"

declare decimal.simps [simp del]

text \<open>
  \<^verbatim>\<open>async function downloadFile(url: string, filepath: string): Promise<DownloadResult> {
    try {
      const response = await fetch(url);
      if (!response.ok) {
        throw new Error(`Failed to download: ${response.status} ${response.statusText}`);
      }
      const fileData = new Uint8Array(await response.arrayBuffer());
      await Deno.writeFile(filepath, fileData);
      return { success: true };
    } catch (error) {
      return { success: false,
               error: error instanceof Error ? error.message : String(error) };
    }
  }\<close>
  The caller passes \<open>episode.audioUrl\<close> and \<open>episode.imageUrl\<close>, whatever values they
  hold, so \<open>url\<close> is a value.
\<close>

definition failed_to_download :: "response \<Rightarrow> jsstring" where
  "failed_to_download r =
     js ''Failed to download: '' @ decimal (status r) @ js '' '' @ statusText r"

definition downloadFile :: "runtime \<Rightarrow> jsval \<Rightarrow> jsstring \<Rightarrow> DownloadResult io" where
  "downloadFile rt url filepath =
     try_catch
       (io_bind (do_fetch rt url) (\<lambda>response.
          if \<not> ok response then io_throw (ErrorInstance (failed_to_download response))
          else
            io_bind (io_lift (arrayBuffer response)) (\<lambda>fileData.
            io_bind (do_writeFile rt filepath fileData) (\<lambda>_.
            io_return \<lparr>success = True, error = None\<rparr>))))
       (\<lambda>e. io_return \<lparr>success = False, error = Some (message_of e)\<rparr>)"

section \<open>\<open>parseRSSFeed\<close>\<close>

text \<open>
  The callback of \<open>items.map\<close>. The object literal evaluates its properties in the
  order written, so the first read that throws decides the exception:
  \<^verbatim>\<open>title: item.title,
  guid: item.guid['#text'] || item.guid,
  pubDate: item.pubDate,
  duration: item['itunes:duration'],
  description: item.description,
  link: item.link,
  imageUrl: item['itunes:image']?.['@href'] || '',
  audioUrl: item.enclosure['@url'],
  season: item['itunes:season'] ? parseInt(item['itunes:season']) : undefined,
  episode: item['itunes:episode'] ? parseInt(item['itunes:episode']) : undefined,\<close>
\<close>

definition parse_optional_int :: "jsval \<Rightarrow> thrown + optional_number" where
  "parse_optional_int v =
     (if ToBoolean v then bind_exn (parseInt v) (\<lambda>n. Inr (Number n)) else Inr Undefined)"

definition parse_item :: "jsval \<Rightarrow> thrown + PodcastEpisode" where
  "parse_item item =
     bind_exn (get_prop item (js ''title'')) (\<lambda>v_title.
     bind_exn (get_prop item (js ''guid'')) (\<lambda>v_guid.
     bind_exn (get_prop v_guid (js ''#text'')) (\<lambda>v_guid_text.
     bind_exn (get_prop item (js ''pubDate'')) (\<lambda>v_pubDate.
     bind_exn (get_prop item (js ''itunes:duration'')) (\<lambda>v_duration.
     bind_exn (get_prop item (js ''description'')) (\<lambda>v_description.
     bind_exn (get_prop item (js ''link'')) (\<lambda>v_link.
     bind_exn (get_prop item (js ''itunes:image'')) (\<lambda>v_image.
     bind_exn (get_prop_optional v_image (js ''@href'')) (\<lambda>v_href.
     bind_exn (get_prop item (js ''enclosure'')) (\<lambda>v_enclosure.
     bind_exn (get_prop v_enclosure (js ''@url'')) (\<lambda>v_url.
     bind_exn (get_prop item (js ''itunes:season'')) (\<lambda>v_season.
     bind_exn (parse_optional_int v_season) (\<lambda>n_season.
     bind_exn (get_prop item (js ''itunes:episode'')) (\<lambda>v_episode.
     bind_exn (parse_optional_int v_episode) (\<lambda>n_episode.
     Inr \<lparr>title = v_title,
          guid = js_or v_guid_text v_guid,
          pubDate = v_pubDate,
          duration = v_duration,
          description = v_description,
          link = v_link,
          imageUrl = js_or v_href (VStr []),
          audioUrl = v_url,
          season = n_season,
          episode = n_episode\<rparr>)))))))))))))))"

text \<open>
  \<open>items.map(f)\<close>: \<open>Array.prototype.map\<close> when \<open>items\<close> is an array, calling \<open>f\<close> on the
  elements from left to right until one throws. Nothing else has a method \<open>map\<close>: the
  call throws a \<open>TypeError\<close>.
\<close>

fun array_map :: "(jsval \<Rightarrow> thrown + 'a) \<Rightarrow> jsval \<Rightarrow> thrown + 'a list" where
  "array_map f (VArr xs) = sequence_exn (map f xs)"
| "array_map f VUndefined = Inl (cannot_read VUndefined (js ''map''))"
| "array_map f VNull = Inl (cannot_read VNull (js ''map''))"
| "array_map f v = Inl (not_a_function (js ''items.map''))"

text \<open>
  \<^verbatim>\<open>async function parseRSSFeed(xmlContent: string): Promise<PodcastEpisode[]> {
    const doc = await parseXml(xmlContent);
    const items = doc.rss.channel.item;
    return items.map((item: any) => { ... });
  }\<close>
\<close>

definition parseRSSFeed :: "runtime \<Rightarrow> jsstring \<Rightarrow> thrown + PodcastEpisode list" where
  "parseRSSFeed rt xmlContent =
     bind_exn (parseXml rt xmlContent) (\<lambda>doc.
     bind_exn (get_prop doc (js ''rss'')) (\<lambda>rss.
     bind_exn (get_prop rss (js ''channel'')) (\<lambda>channel.
     bind_exn (get_prop channel (js ''item'')) (\<lambda>items.
     array_map parse_item items))))"

section \<open>\<open>backupPodcast\<close>\<close>

text \<open>
  \<open>sanitizeFilename(episode.title)\<close> calls \<open>filename.replace\<close>, a method of strings
  only: on any other value the call throws.
\<close>

fun call_sanitizeFilename :: "unicode_data \<Rightarrow> jsval \<Rightarrow> thrown + jsstring" where
  "call_sanitizeFilename ud (VStr s) = Inr (sanitizeFilename ud s)"
| "call_sanitizeFilename ud VUndefined = Inl (cannot_read VUndefined (js ''replace''))"
| "call_sanitizeFilename ud VNull = Inl (cannot_read VNull (js ''replace''))"
| "call_sanitizeFilename ud v = Inl (not_a_function (js ''filename.replace''))"

text \<open>
  \<open>s.split('.')\<close>: the pieces of \<open>s\<close> between the dots, at least one piece.
\<close>

fun split_on :: "jschar \<Rightarrow> jsstring \<Rightarrow> jsstring list" where
  "split_on sep [] = [[]]"
| "split_on sep (c # cs) =
     (if c = sep then [] # split_on sep cs
      else (case split_on sep cs of
              piece # pieces \<Rightarrow> (c # piece) # pieces
            | [] \<Rightarrow> [[c]]))"

text \<open>\<open>xs.pop()\<close>: the last element, \<open>undefined\<close> for an empty array.\<close>

definition pop :: "'a list \<Rightarrow> 'a option" where
  "pop xs = (if xs = [] then None else Some (last xs))"

definition dot :: jschar where
  "dot = 0x2E"

text \<open>\<^verbatim>\<open>episode.imageUrl.split('.').pop() || 'jpg'\<close>, for a string.\<close>

definition image_ext :: "jsstring \<Rightarrow> jsstring" where
  "image_ext url =
     (case pop (split_on dot url) of
        None \<Rightarrow> js ''jpg''
      | Some ext \<Rightarrow> if ext \<noteq> [] then ext else js ''jpg'')"

text \<open>On a value that is no string (and not \<open>undefined\<close> or \<open>null\<close>: it was truthy) \<open>split\<close> is no method.\<close>

fun call_image_ext :: "jsval \<Rightarrow> thrown + jsstring" where
  "call_image_ext (VStr s) = Inr (image_ext s)"
| "call_image_ext VUndefined = Inl (cannot_read VUndefined (js ''split''))"
| "call_image_ext VNull = Inl (cannot_read VNull (js ''split''))"
| "call_image_ext v = Inl (not_a_function (js ''episode.imageUrl.split''))"

text \<open>\<^verbatim>\<open>${result.error}\<close>\<close>

definition error_text :: "DownloadResult \<Rightarrow> jsstring" where
  "error_text r = (case error r of Some m \<Rightarrow> m | None \<Rightarrow> js ''undefined'')"

definition outcome_word :: "DownloadResult \<Rightarrow> jsstring" where
  "outcome_word r = (if success r then js ''successful'' else js ''failed'')"

text \<open>
  The three output directories (lines 75 to 81):
  \<^verbatim>\<open>const audioDir = join(outputDir, 'audio');
  const imageDir = join(outputDir, 'images');
  const jsonDir = join(outputDir, 'json');
  await ensureDir(audioDir);
  await ensureDir(imageDir);
  await ensureDir(jsonDir);\<close>
\<close>

record directories =
  audioDir :: jsstring
  imageDir :: jsstring
  jsonDir :: jsstring

definition make_directories :: "runtime \<Rightarrow> jsstring \<Rightarrow> directories io" where
  "make_directories rt outputDir =
     (let dirs = \<lparr>audioDir = path_join rt outputDir (js ''audio''),
                  imageDir = path_join rt outputDir (js ''images''),
                  jsonDir = path_join rt outputDir (js ''json'')\<rparr>
      in io_bind (do_ensureDir rt (audioDir dirs)) (\<lambda>_.
         io_bind (do_ensureDir rt (imageDir dirs)) (\<lambda>_.
         io_bind (do_ensureDir rt (jsonDir dirs)) (\<lambda>_.
         io_return dirs))))"

text \<open>
  Fetching and parsing the feed (lines 84 to 86):
  \<^verbatim>\<open>const response = await fetch(rssUrl);
  const xmlContent = await response.text();
  const episodes = await parseRSSFeed(xmlContent);\<close>
\<close>

definition load_episodes :: "runtime \<Rightarrow> jsstring \<Rightarrow> PodcastEpisode list io" where
  "load_episodes rt rssUrl =
     io_bind (do_fetch rt (VStr rssUrl)) (\<lambda>response.
     io_bind (io_lift (text_of response)) (\<lambda>xmlContent.
     io_lift (parseRSSFeed rt xmlContent)))"

text \<open>
  The audio step of the loop body (lines 95 to 102):
  \<^verbatim>\<open>if (episode.audioUrl) {
    const audioPath = join(audioDir, `${baseFilename}.mp3`);
    const audioResult = await downloadFile(episode.audioUrl, audioPath);
    console.log(`Audio download ${audioResult.success ? 'successful' : 'failed'}: ${episode.title}`);
    if (!audioResult.success) {
      console.error(`Error downloading audio: ${audioResult.error}`);
    }
  }\<close>
\<close>

definition audio_step :: "runtime \<Rightarrow> directories \<Rightarrow> PodcastEpisode \<Rightarrow> jsstring \<Rightarrow> unit io" where
  "audio_step rt dirs ep baseFilename =
     (if ToBoolean (audioUrl ep) then
        (let audioPath = path_join rt (audioDir dirs) (baseFilename @ js ''.mp3'')
         in io_bind (downloadFile rt (audioUrl ep) audioPath) (\<lambda>audioResult.
            io_bind (console_log_with
                       (js ''Audio download '' @ outcome_word audioResult @ js '': '')
                       (title ep)) (\<lambda>_.
            if \<not> success audioResult
            then console_error [js ''Error downloading audio: '' @ error_text audioResult]
            else io_return ())))
      else io_return ())"

text \<open>
  The image step (lines 105 to 113):
  \<^verbatim>\<open>if (episode.imageUrl) {
    const imageExt = episode.imageUrl.split('.').pop() || 'jpg';
    const imagePath = join(imageDir, `${baseFilename}.${imageExt}`);
    const imageResult = await downloadFile(episode.imageUrl, imagePath);
    console.log(`Image download ${imageResult.success ? 'successful' : 'failed'}: ${episode.title}`);
    if (!imageResult.success) {
      console.error(`Error downloading image: ${imageResult.error}`);
    }
  }\<close>
\<close>

definition image_step :: "runtime \<Rightarrow> directories \<Rightarrow> PodcastEpisode \<Rightarrow> jsstring \<Rightarrow> unit io" where
  "image_step rt dirs ep baseFilename =
     (if ToBoolean (imageUrl ep) then
        io_bind (io_lift (call_image_ext (imageUrl ep))) (\<lambda>imageExt.
        (let imagePath = path_join rt (imageDir dirs) (baseFilename @ js ''.'' @ imageExt)
         in io_bind (downloadFile rt (imageUrl ep) imagePath) (\<lambda>imageResult.
            io_bind (console_log_with
                       (js ''Image download '' @ outcome_word imageResult @ js '': '')
                       (title ep)) (\<lambda>_.
            if \<not> success imageResult
            then console_error [js ''Error downloading image: '' @ error_text imageResult]
            else io_return ()))))
      else io_return ())"

text \<open>
  The metadata step (lines 116 to 118):
  \<^verbatim>\<open>const jsonPath = join(jsonDir, `${baseFilename}.json`);
  await Deno.writeTextFile(jsonPath, JSON.stringify(episode, null, 2));
  console.log(`JSON metadata saved: ${episode.title}`);\<close>
\<close>

definition json_step :: "runtime \<Rightarrow> directories \<Rightarrow> PodcastEpisode \<Rightarrow> jsstring \<Rightarrow> unit io" where
  "json_step rt dirs ep baseFilename =
     (let jsonPath = path_join rt (jsonDir dirs) (baseFilename @ js ''.json'')
      in io_bind (do_writeTextFile rt jsonPath (JSON_stringify rt ep)) (\<lambda>_.
         console_log_with (js ''JSON metadata saved: '') (title ep)))"

text \<open>
  The body of \<^verbatim>\<open>for (const episode of episodes)\<close> (lines 90 to 118): the progress
  line, the base name, and the three steps.
\<close>

definition process_episode :: "runtime \<Rightarrow> directories \<Rightarrow> PodcastEpisode \<Rightarrow> unit io" where
  "process_episode rt dirs ep =
     io_bind (console_log_with (js ''Processing episode: '') (title ep)) (\<lambda>_.
     io_bind (io_lift (call_sanitizeFilename (unicode rt) (title ep))) (\<lambda>baseFilename.
     io_bind (audio_step rt dirs ep baseFilename) (\<lambda>_.
     io_bind (image_step rt dirs ep baseFilename) (\<lambda>_.
     json_step rt dirs ep baseFilename))))"

text \<open>The loop: an exception in one pass leaves the loop.\<close>

fun for_each :: "('a \<Rightarrow> unit io) \<Rightarrow> 'a list \<Rightarrow> unit io" where
  "for_each body [] = io_return ()"
| "for_each body (x # xs) = io_bind (body x) (\<lambda>_. for_each body xs)"

text \<open>
  \<^verbatim>\<open>async function backupPodcast(rssUrl: string, outputDir: string) {
    try {
      ... directories ...
      ... feed ...
      for (const episode of episodes) { ... }
      console.log('Backup completed successfully!');
    } catch (error) {
      console.error('Error during backup:', error instanceof Error ? error.message : String(error));
    }
  }\<close>
\<close>

definition backup_body :: "runtime \<Rightarrow> jsstring \<Rightarrow> jsstring \<Rightarrow> unit io" where
  "backup_body rt rssUrl outputDir =
     io_bind (make_directories rt outputDir) (\<lambda>dirs.
     io_bind (load_episodes rt rssUrl) (\<lambda>episodes.
     io_bind (for_each (process_episode rt dirs) episodes) (\<lambda>_.
     console_log (js ''Backup completed successfully!''))))"

definition backupPodcast :: "runtime \<Rightarrow> jsstring \<Rightarrow> jsstring \<Rightarrow> unit io" where
  "backupPodcast rt rssUrl outputDir =
     try_catch (backup_body rt rssUrl outputDir)
       (\<lambda>e. console_error [js ''Error during backup:'', message_of e])"

section \<open>Notions used to state the properties\<close>

text \<open>The console lines among the events.\<close>

fun is_console :: "event \<Rightarrow> bool" where
  "is_console (ConsoleLog line) = True"
| "is_console (ConsoleError args) = True"
| "is_console ev = False"

text \<open>The value of a property of an object: \<open>undefined\<close> when it has none of that name.\<close>

definition prop_value :: "(jsstring \<times> jsval) list \<Rightarrow> jsstring \<Rightarrow> jsval" where
  "prop_value props key = (case map_of props key of Some v \<Rightarrow> v | None \<Rightarrow> VUndefined)"

text \<open>The value \<open>parseRSSFeed\<close> finds at \<open>doc.rss.channel.item\<close>.\<close>

definition feed_items :: "runtime \<Rightarrow> jsstring \<Rightarrow> thrown + jsval" where
  "feed_items rt xmlContent =
     bind_exn (parseXml rt xmlContent) (\<lambda>doc.
     bind_exn (get_prop doc (js ''rss'')) (\<lambda>rss.
     bind_exn (get_prop rss (js ''channel'')) (\<lambda>channel.
     get_prop channel (js ''item''))))"

text \<open>
  The directories \<open>backupPodcast\<close> computes from the output directory, and the paths
  of the artifacts of an episode titled \<open>t\<close> (with the image URL \<open>url\<close>).
\<close>

definition directories_of :: "runtime \<Rightarrow> jsstring \<Rightarrow> directories" where
  "directories_of rt outputDir =
     \<lparr>audioDir = path_join rt outputDir (js ''audio''),
      imageDir = path_join rt outputDir (js ''images''),
      jsonDir = path_join rt outputDir (js ''json'')\<rparr>"

definition audio_path :: "runtime \<Rightarrow> directories \<Rightarrow> jsstring \<Rightarrow> jsstring" where
  "audio_path rt dirs t =
     path_join rt (audioDir dirs) (sanitizeFilename (unicode rt) t @ js ''.mp3'')"

definition image_path :: "runtime \<Rightarrow> directories \<Rightarrow> jsstring \<Rightarrow> jsstring \<Rightarrow> jsstring" where
  "image_path rt dirs t url =
     path_join rt (imageDir dirs) (sanitizeFilename (unicode rt) t @ js ''.'' @ image_ext url)"

definition json_path :: "runtime \<Rightarrow> directories \<Rightarrow> jsstring \<Rightarrow> jsstring" where
  "json_path rt dirs t =
     path_join rt (jsonDir dirs) (sanitizeFilename (unicode rt) t @ js ''.json'')"


definition title_text :: "PodcastEpisode \<Rightarrow> jsstring" where
  "title_text ep = (case title ep of VStr t \<Rightarrow> t | _ \<Rightarrow> [])"


section \<open>Concrete environments and feeds\<close>

text \<open>
  Environments on which the theorems are instantiated: identity case tables beyond
  ASCII, the path module of a POSIX system, a network that answers by the URL alone, a
  file system on which nothing fails, a serializer that prints the title.
\<close>

definition plain_unicode :: unicode_data where
  "plain_unicode = \<lparr>upper_table = (\<lambda>c. [c]), lower_table = (\<lambda>s. s)\<rparr>"

text \<open>
  \<open>join\<close> of the standard library (\<^verbatim>\<open>std@0.208.0/path\<close>, imported by URL and no part of
  the repository) as it works on a POSIX system: the arguments that are not empty are
  joined with a slash and the result is normalized. Normalizing drops the empty
  segments and the segments \<open>.\<close>, and lets a segment \<open>..\<close> take away the segment before
  it (when there is none, \<open>..\<close> stays in a relative path and is dropped in an absolute
  one); a slash at the front or at the end is kept, and the empty path is \<open>.\<close>.
\<close>

definition slash :: jschar where
  "slash = 0x2F"

fun normalize_segments :: "bool \<Rightarrow> jsstring list \<Rightarrow> jsstring list \<Rightarrow> jsstring list" where
  "normalize_segments allowAboveRoot res [] = res"
| "normalize_segments allowAboveRoot res (seg # segs) =
     (if seg = [] \<or> seg = [dot] then normalize_segments allowAboveRoot res segs
      else if seg = [dot, dot] then
        (if res \<noteq> [] \<and> last res \<noteq> [dot, dot]
         then normalize_segments allowAboveRoot (butlast res) segs
         else if allowAboveRoot then normalize_segments allowAboveRoot (res @ [seg]) segs
         else normalize_segments allowAboveRoot res segs)
      else normalize_segments allowAboveRoot (res @ [seg]) segs)"

definition posix_normalize :: "jsstring \<Rightarrow> jsstring" where
  "posix_normalize path =
     (if path = [] then [dot]
      else
        (let isAbsolute = (hd path = slash);
             trailingSeparator = (last path = slash);
             p = intercalate [slash] (normalize_segments (\<not> isAbsolute) [] (split_on slash path));
             p = (if p = [] \<and> \<not> isAbsolute then [dot] else p);
             p = (if p \<noteq> [] \<and> trailingSeparator then p @ [slash] else p)
         in if isAbsolute then slash # p else p))"

definition posix_join :: "jsstring \<Rightarrow> jsstring \<Rightarrow> jsstring" where
  "posix_join dir name =
     (let joined = intercalate [slash] (filter (\<lambda>p. p \<noteq> []) [dir, name])
      in if joined = [] then [dot] else posix_normalize joined)"

definition static_runtime ::
  "(jsval \<Rightarrow> thrown + response) \<Rightarrow> (jsstring \<Rightarrow> thrown + jsval) \<Rightarrow> runtime" where
  "static_runtime net xml =
     \<lparr>unicode = plain_unicode,
      fetch = (\<lambda>history. net),
      writeFile_fault = (\<lambda>history path fileData. None),
      writeTextFile_fault = (\<lambda>history path content. None),
      ensureDir_fault = (\<lambda>history dir. None),
      parseXml = xml,
      path_join = posix_join,
      JSON_stringify = title_text\<rparr>"

definition empty_world :: world where
  "empty_world = \<lparr>files = Map.empty, trace = []\<rparr>"

definition out_directories :: directories where
  "out_directories =
     \<lparr>audioDir = js ''out/audio'', imageDir = js ''out/images'', jsonDir = js ''out/json''\<rparr>"

definition ok_response :: "bytes \<Rightarrow> response" where
  "ok_response body =
     \<lparr>ok = True, status = 200, statusText = js ''OK'', arrayBuffer = Inr body,
      text_of = Inr []\<rparr>"

definition not_found_response :: response where
  "not_found_response =
     \<lparr>ok = False, status = 404, statusText = js ''Not Found'', arrayBuffer = Inr [],
      text_of = Inr []\<rparr>"

definition feed_response :: response where
  "feed_response =
     \<lparr>ok = True, status = 200, statusText = js ''OK'', arrayBuffer = Inr [],
      text_of = Inr (js ''<rss/>'')\<rparr>"

text \<open>
  A network with a feed at \<open>http://h/feed\<close>, the audio of a second episode at
  \<open>http://h/2.mp3\<close>, and 404 for every other URL.
\<close>

definition two_item_net :: "jsval \<Rightarrow> thrown + response" where
  "two_item_net url =
     (if url = VStr (js ''http://h/feed'') then Inr feed_response
      else if url = VStr (js ''http://h/2.mp3'') then Inr (ok_response [1, 2, 3])
      else Inr not_found_response)"

text \<open>
  Modelled from the spec: how the XML library (\<^verbatim>\<open>deno.land/x/xml@2.1.1\<close>, imported by
  URL and not under \<open>src/\<close>) gives the children of one name. The specification speaks
  of the "single-item-vs-list inconsistency from generic XML-to-object parsing": a
  child that occurs once is the property's value itself, children that occur several
  times are an array in document order, and a name that does not occur gives no
  property.
\<close>

definition children_property :: "jsval list \<Rightarrow> jsval" where
  "children_property children =
     (case children of [] \<Rightarrow> VUndefined | [child] \<Rightarrow> child | _ \<Rightarrow> VArr children)"

text \<open>
  The parsed document of a feed with the given items, an item with a title, a guid
  and an enclosure, and the episode \<open>parseRSSFeed\<close> makes of such an item.
\<close>

definition feed_doc :: "jsval list \<Rightarrow> jsval" where
  "feed_doc items =
     VObj [(js ''rss'',
            VObj [(js ''channel'',
                   VObj [(js ''title'', VStr (js ''Show'')),
                         (js ''item'', children_property items)])])]"

definition feed_item :: "string \<Rightarrow> string \<Rightarrow> jsval" where
  "feed_item t audio =
     VObj [(js ''title'', VStr (js t)),
           (js ''guid'', VStr (js audio)),
           (js ''enclosure'', VObj [(js ''@url'', VStr (js audio))])]"

definition feed_episode :: "string \<Rightarrow> string \<Rightarrow> PodcastEpisode" where
  "feed_episode t audio =
     \<lparr>title = VStr (js t), guid = VStr (js audio), pubDate = VUndefined,
      duration = VUndefined, description = VUndefined, link = VUndefined,
      imageUrl = VStr [], audioUrl = VStr (js audio), season = Undefined, episode = Undefined\<rparr>"



definition no_enclosure_item :: jsval where
  "no_enclosure_item =
     VObj [(js ''title'', VStr (js ''Broken'')), (js ''guid'', VStr (js ''g2''))]"

text \<open>The environments of the examples.\<close>

definition feed_runtime :: "jsval list \<Rightarrow> runtime" where
  "feed_runtime items = static_runtime two_item_net (\<lambda>xml. Inr (feed_doc items))"

definition two_items :: "jsval list" where
  "two_items = [feed_item ''One'' ''http://h/1.mp3'', feed_item ''Two'' ''http://h/2.mp3'']"

definition two_item_runtime :: runtime where
  "two_item_runtime = feed_runtime two_items"

text \<open>A file system that refuses every \<open>Deno.writeFile\<close>.\<close>

definition read_only_runtime :: "(jsval \<Rightarrow> thrown + response) \<Rightarrow> runtime" where
  "read_only_runtime net =
     (static_runtime net (\<lambda>xml. Inr VUndefined))
       \<lparr>writeFile_fault := (\<lambda>history path fileData. Some (ErrorInstance (js ''Permission denied'')))\<rparr>"

text \<open>One in which no directory can be made, and one in which no metadata can be written.\<close>

definition no_directories_runtime :: runtime where
  "no_directories_runtime =
     (static_runtime two_item_net (\<lambda>xml. Inr VUndefined))
       \<lparr>ensureDir_fault := (\<lambda>history dir. Some (ErrorInstance (js ''Permission denied'')))\<rparr>"

definition no_metadata_runtime :: runtime where
  "no_metadata_runtime =
     two_item_runtime
       \<lparr>writeTextFile_fault :=
          (\<lambda>history path content. Some (ErrorInstance (js ''No space left on device'')))\<rparr>"

section \<open>The sanitizer\<close>

lemma is_lower_unat: "is_lower c = (97 \<le> unat c \<and> unat c \<le> 122)"
  by (simp add: is_lower_def word_le_nat_alt)

lemma is_upper_unat: "is_upper c = (65 \<le> unat c \<and> unat c \<le> 90)"
  by (simp add: is_upper_def word_le_nat_alt)

lemma is_digit_unat: "is_digit c = (48 \<le> unat c \<and> unat c \<le> 57)"
  by (simp add: is_digit_def word_le_nat_alt)

lemma is_ascii_unat: "is_ascii c = (unat c < 128)"
  by (simp add: is_ascii_def word_less_nat_alt)

lemmas unit_classes = is_alnum_def is_digit_def is_lower_def is_upper_def ascii_lower_def
  underscore_def is_safe_unit_def

text \<open>Canonicalized, the members of the class are \<open>A\<close>..\<open>Z\<close> and \<open>0\<close>..\<open>9\<close>.\<close>

lemma class_canon:
  "map (canonicalize ud) class_a_z_0_9 = map of_nat ([65..<91] @ [48..<58])"
  by (simp add: class_a_z_0_9_def canonicalize_def toUpperCase1_def is_ascii_def
      ascii_upper_def is_lower_def upt_rec)

lemma in_range16:
  assumes "hi < 65536"
  shows "((c::16 word) \<in> of_nat ` {lo..<hi}) = (lo \<le> unat c \<and> unat c < hi)"
proof
  assume "c \<in> of_nat ` {lo..<hi}"
  then obtain n where n: "c = of_nat n" "lo \<le> n" "n < hi" by auto
  then have "unat c = n" using assms by (simp add: unat_of_nat)
  then show "lo \<le> unat c \<and> unat c < hi" using n by simp
next
  assume "lo \<le> unat c \<and> unat c < hi"
  then have "unat c \<in> {lo..<hi}" by simp
  then have "of_nat (unat c) \<in> (of_nat ` {lo..<hi} :: 16 word set)" by (rule imageI)
  then show "c \<in> of_nat ` {lo..<hi}" by simp
qed

lemma class_members:
  "(c \<in> set (map (canonicalize ud) class_a_z_0_9)) = (is_upper c \<or> is_digit c)"
proof -
  have "set (map (canonicalize ud) class_a_z_0_9)
      = of_nat ` {65..<91} \<union> of_nat ` {48..<58}"
    by (simp only: class_canon set_map set_append set_upt image_Un)
  moreover have "(c \<in> of_nat ` {65..<91}) = is_upper c"
    by (subst in_range16) (auto simp: is_upper_unat)
  moreover have "(c \<in> of_nat ` {48..<58}) = is_digit c"
    by (subst in_range16) (auto simp: is_digit_unat)
  ultimately show ?thesis by (simp only: Un_iff)
qed

lemma unat_ascii_upper:
  "unat (ascii_upper c) = (if is_lower c then unat c - 32 else unat c)"
proof (cases "is_lower c")
  case True
  then have "32 \<le> c" by (simp add: is_lower_def word_le_nat_alt)
  then show ?thesis using True by (simp add: ascii_upper_def unat_sub)
next
  case False
  then show ?thesis by (simp add: ascii_upper_def)
qed

lemma unat_ascii_lower:
  "unat (ascii_lower c) = (if is_upper c then unat c + 32 else unat c)"
proof (cases "is_upper c")
  case True
  then have "unat c + unat (32::16 word) < 2 ^ LENGTH(16)" by (simp add: is_upper_unat)
  then have "unat (c + 32) = unat c + unat (32::16 word)" by (simp only: unat_add_lem)
  then show ?thesis using True by (simp add: ascii_lower_def)
next
  case False
  then show ?thesis by (simp add: ascii_lower_def)
qed

lemma canonicalize_ascii: "is_ascii c \<Longrightarrow> canonicalize ud c = ascii_upper c"
  by (simp add: canonicalize_def toUpperCase1_def)

text \<open>
  Whatever the Unicode tables say, a code unit beyond ASCII never canonicalizes to an
  ASCII one, so it is never a member of the class.
\<close>

lemma canonicalize_not_ascii: "\<not> is_ascii c \<Longrightarrow> \<not> is_ascii (canonicalize ud c)"
  by (auto simp: canonicalize_def split: list.splits)

lemma not_a_z_0_9_i_iff: "not_a_z_0_9_i ud c = (\<not> is_alnum c)"
proof (cases "is_ascii c")
  case True
  show ?thesis
    unfolding not_a_z_0_9_i_def class_matches_def class_members canonicalize_ascii [OF True]
    by (auto simp: is_alnum_def is_upper_unat is_digit_unat is_lower_unat unat_ascii_upper)
next
  case False
  from canonicalize_not_ascii [OF False] have "\<not> is_ascii (canonicalize ud c)" .
  then have "\<not> class_matches ud class_a_z_0_9 c"
    unfolding class_matches_def class_members
    by (auto simp: is_upper_unat is_digit_unat is_ascii_unat)
  moreover have "\<not> is_alnum c"
    using False
    by (auto simp: is_alnum_def is_upper_unat is_digit_unat is_lower_unat is_ascii_unat)
  ultimately show ?thesis by (simp add: not_a_z_0_9_i_def)
qed

lemma replace_units_single:
  "replace_units p [r] s = map (\<lambda>c. if p c then r else c) s"
  by (induction s) (simp_all add: replace_units_def)

lemma replaced_ascii:
  "list_all is_ascii (map (\<lambda>c. if \<not> is_alnum c then underscore else c) s)"
  by (induction s)
    (auto simp: is_alnum_def underscore_def is_upper_unat is_digit_unat is_lower_unat
      is_ascii_unat)

lemma ascii_lower_underscore: "ascii_lower underscore = underscore"
  by (simp add: ascii_lower_def underscore_def is_upper_unat)

lemma sanitizeFilename_eq_spec: "sanitizeFilename ud s = spec_sanitize s"
proof -
  have "sanitizeFilename ud s
      = map ascii_lower (map (\<lambda>c. if \<not> is_alnum c then underscore else c) s)"
    by (simp add: sanitizeFilename_def replace_units_single not_a_z_0_9_i_iff [abs_def]
        toLowerCase_def replaced_ascii del: map_map)
  also have "\<dots> = spec_sanitize s"
    by (simp add: spec_sanitize_def ascii_lower_underscore)
  finally show ?thesis .
qed

lemma is_safe_spec: "is_safe_unit (if is_alnum c then ascii_lower c else underscore)"
  by (auto simp: is_safe_unit_def is_alnum_def is_lower_unat is_upper_unat is_digit_unat
      unat_ascii_lower)

lemma spec_sanitize_safe: "list_all is_safe_unit (spec_sanitize s)"
  by (induction s) (simp_all add: spec_sanitize_def is_safe_spec)

text \<open>
  Claim C2. For every string \<open>s\<close> and whatever the case tables of the runtime are
  beyond ASCII, \<open>sanitizeFilename s\<close> consists of code units of \<open>[a-z0-9_]\<close>, is as
  long as \<open>s\<close> (in code units, as \<open>length\<close> counts), and is the string the
  specification describes: every code unit outside \<open>[a-zA-Z0-9]\<close> replaced by \<open>_\<close>,
  the rest lower-cased. \<open>"Ep. 5: A/B Test!"\<close> becomes \<open>"ep__5__a_b_test_"\<close>, and two
  inputs that are equal after the replacement and lower-casing have the same output.
\<close>

theorem sanitizeFilename_contract:
  "list_all is_safe_unit (sanitizeFilename ud s)
   \<and> length (sanitizeFilename ud s) = length s
   \<and> sanitizeFilename ud s = spec_sanitize s
   \<and> sanitizeFilename ud (js ''Ep. 5: A/B Test!'') = js ''ep__5__a_b_test_''
   \<and> (spec_sanitize s = spec_sanitize t \<longrightarrow> sanitizeFilename ud s = sanitizeFilename ud t)"
proof -
  have "sanitizeFilename ud (js ''Ep. 5: A/B Test!'') = js ''ep__5__a_b_test_''"
    by (simp add: sanitizeFilename_eq_spec spec_sanitize_def js_def unit_classes)
  then show ?thesis
    by (simp add: sanitizeFilename_eq_spec spec_sanitize_safe) (simp add: spec_sanitize_def)
qed

theorem sanitizeFilename_contract_witness:
  "spec_sanitize (js ''A b'') = spec_sanitize (js ''a_B'')
   \<and> sanitizeFilename plain_unicode (js ''A b'') = js ''a_b''
   \<and> sanitizeFilename plain_unicode (js ''a_B'') = js ''a_b''
   \<and> list_all is_safe_unit (sanitizeFilename plain_unicode (js ''A b''))
   \<and> length (sanitizeFilename plain_unicode (js ''A b'')) = 3"
proof -
  have same: "spec_sanitize (js ''A b'') = spec_sanitize (js ''a_B'')"
    by (simp add: spec_sanitize_def js_def unit_classes)
  have lowered: "spec_sanitize (js ''a_B'') = js ''a_b''"
    by (simp add: spec_sanitize_def js_def unit_classes)
  have safe: "list_all is_safe_unit (js ''a_b'')"
    by (simp add: js_def unit_classes)
  from sanitizeFilename_contract [of plain_unicode "js ''A b''" "js ''a_B''"]
    sanitizeFilename_contract [of plain_unicode "js ''a_B''" "js ''A b''"] same lowered safe
  show ?thesis by (simp add: js_def)
qed

section \<open>The downloader\<close>

text \<open>\<open>downloadFile\<close>, case by case: the handler turns every exception of the body into a result.\<close>

lemma downloadFile_unfold:
  "downloadFile rt url path w =
     (case fetch rt (trace w) url of
        Inl e \<Rightarrow> (Inr \<lparr>success = False, error = Some (message_of e)\<rparr>, emit (Fetch url) w)
      | Inr r \<Rightarrow>
          if \<not> ok r
          then (Inr \<lparr>success = False, error = Some (failed_to_download r)\<rparr>, emit (Fetch url) w)
          else (case arrayBuffer r of
                  Inl e \<Rightarrow> (Inr \<lparr>success = False, error = Some (message_of e)\<rparr>, emit (Fetch url) w)
                | Inr fileData \<Rightarrow>
                    (case writeFile_fault rt (trace w @ [Fetch url]) path fileData of
                       Some e \<Rightarrow>
                         (Inr \<lparr>success = False, error = Some (message_of e)\<rparr>,
                          emit (WriteFile path fileData) (emit (Fetch url) w))
                     | None \<Rightarrow>
                         (Inr \<lparr>success = True, error = None\<rparr>,
                          emit (WriteFile path fileData)
                            ((emit (Fetch url) w)\<lparr>files := (files w)(path \<mapsto> Bytes fileData)\<rparr>)))))"
  by (simp add: downloadFile_def try_catch_def io_bind_def do_fetch_def io_throw_def io_lift_def
      do_writeFile_def io_return_def emit_def split: sum.splits option.splits)

lemma decimal_404: "decimal 404 = js ''404''"
  by (simp add: decimal.simps js_def)

text \<open>
  Claim C3. For every URL, destination path, environment and world, \<open>downloadFile\<close>
  returns a result and never throws. A response that is not OK gives the failure
  result whose message is \<open>Failed to download:\<close> followed by the status in decimal and
  the status text, so the message contains both. An exception of \<open>fetch\<close>, of reading
  the body or of \<open>Deno.writeFile\<close> gives the failure result with the exception's
  message (its string form when it is no \<open>Error\<close>). Nothing is written to the console:
  the result is the only report.
\<close>

theorem downloadFile_reports_by_result:
  "(\<exists>r w'. downloadFile rt url path w = (Inr r, w'))
   \<and> (\<forall>r. fetch rt (trace w) url = Inr r \<and> \<not> ok r \<longrightarrow>
         fst (downloadFile rt url path w)
           = Inr \<lparr>success = False,
                  error = Some (js ''Failed to download: '' @ decimal (status r) @ js '' ''
                                @ statusText r)\<rparr>
         \<and> sublist (decimal (status r)) (failed_to_download r)
         \<and> sublist (statusText r) (failed_to_download r))
   \<and> (\<forall>e. fetch rt (trace w) url = Inl e \<longrightarrow>
         fst (downloadFile rt url path w) = Inr \<lparr>success = False, error = Some (message_of e)\<rparr>)
   \<and> (\<forall>r e. fetch rt (trace w) url = Inr r \<and> ok r \<and> arrayBuffer r = Inl e \<longrightarrow>
         fst (downloadFile rt url path w) = Inr \<lparr>success = False, error = Some (message_of e)\<rparr>)
   \<and> (\<forall>r fileData e.
         fetch rt (trace w) url = Inr r \<and> ok r \<and> arrayBuffer r = Inr fileData
         \<and> writeFile_fault rt (trace w @ [Fetch url]) path fileData = Some e \<longrightarrow>
         fst (downloadFile rt url path w) = Inr \<lparr>success = False, error = Some (message_of e)\<rparr>)
   \<and> filter is_console (trace (snd (downloadFile rt url path w))) = filter is_console (trace w)"
proof -
  have returns: "\<exists>r w'. downloadFile rt url path w = (Inr r, w')"
    by (simp add: downloadFile_unfold split: sum.splits option.splits)
  have contains: "sublist (decimal (status r)) (failed_to_download r)
      \<and> sublist (statusText r) (failed_to_download r)" for r
    unfolding failed_to_download_def by (metis sublist_appendI sublist_append_leftI append.assoc)
  have quiet: "filter is_console (trace (snd (downloadFile rt url path w)))
      = filter is_console (trace w)"
    by (simp add: downloadFile_unfold emit_def split: sum.splits option.splits)
  show ?thesis
    using returns contains quiet
    by (simp add: downloadFile_unfold failed_to_download_def)
qed

text \<open>
  The four kinds of failure on concrete environments: a 404, a rejected \<open>fetch\<close>, a
  body that cannot be read (the thrown value is no \<open>Error\<close>), a file that cannot be
  written.
\<close>

theorem downloadFile_reports_by_result_witness:
  "fst (downloadFile (static_runtime (\<lambda>url. Inr not_found_response) (\<lambda>xml. Inr VUndefined))
          (VStr (js ''http://h/a.mp3'')) (js ''a.mp3'') empty_world)
     = Inr \<lparr>success = False, error = Some (js ''Failed to download: 404 Not Found'')\<rparr>
   \<and> fst (downloadFile
            (static_runtime (\<lambda>url. Inl (ErrorInstance (js ''connection refused'')))
               (\<lambda>xml. Inr VUndefined))
            (VStr (js ''http://h/a.mp3'')) (js ''a.mp3'') empty_world)
     = Inr \<lparr>success = False, error = Some (js ''connection refused'')\<rparr>
   \<and> fst (downloadFile
            (static_runtime
               (\<lambda>url. Inr ((ok_response [1, 2, 3])\<lparr>arrayBuffer := Inl (OtherThrown (js ''aborted''))\<rparr>))
               (\<lambda>xml. Inr VUndefined))
            (VStr (js ''http://h/a.mp3'')) (js ''a.mp3'') empty_world)
     = Inr \<lparr>success = False, error = Some (js ''aborted'')\<rparr>
   \<and> fst (downloadFile (read_only_runtime (\<lambda>url. Inr (ok_response [1, 2, 3])))
            (VStr (js ''http://h/a.mp3'')) (js ''a.mp3'') empty_world)
     = Inr \<lparr>success = False, error = Some (js ''Permission denied'')\<rparr>"
  using
    downloadFile_reports_by_result
      [of "static_runtime (\<lambda>url. Inr not_found_response) (\<lambda>xml. Inr VUndefined)"
          "VStr (js ''http://h/a.mp3'')" "js ''a.mp3''" empty_world]
    downloadFile_reports_by_result
      [of "static_runtime (\<lambda>url. Inl (ErrorInstance (js ''connection refused'')))
             (\<lambda>xml. Inr VUndefined)"
          "VStr (js ''http://h/a.mp3'')" "js ''a.mp3''" empty_world]
    downloadFile_reports_by_result
      [of "static_runtime
             (\<lambda>url. Inr ((ok_response [1, 2, 3])\<lparr>arrayBuffer := Inl (OtherThrown (js ''aborted''))\<rparr>))
             (\<lambda>xml. Inr VUndefined)"
          "VStr (js ''http://h/a.mp3'')" "js ''a.mp3''" empty_world]
    downloadFile_reports_by_result
      [of "read_only_runtime (\<lambda>url. Inr (ok_response [1, 2, 3]))"
          "VStr (js ''http://h/a.mp3'')" "js ''a.mp3''" empty_world]
  by (simp add: static_runtime_def read_only_runtime_def not_found_response_def ok_response_def
      empty_world_def decimal_404) (simp add: js_def)

text \<open>
  Claim C4, as stated, fails where the response is OK and its body is read but the
  file cannot be written: \<open>Deno.writeFile\<close> throws, the handler catches, and the
  result is a failure with nothing written. Here the GET succeeds with the body
  \<open>[1, 2, 3]\<close> and the file system refuses the write.
\<close>

theorem downloadFile_write_fault_counterexample:
  "fetch (read_only_runtime (\<lambda>url. Inr (ok_response [1, 2, 3]))) (trace empty_world)
       (VStr (js ''http://h/a.mp3''))
     = Inr (ok_response [1, 2, 3])
   \<and> ok (ok_response [1, 2, 3])
   \<and> arrayBuffer (ok_response [1, 2, 3]) = Inr [1, 2, 3]
   \<and> fst (downloadFile (read_only_runtime (\<lambda>url. Inr (ok_response [1, 2, 3])))
            (VStr (js ''http://h/a.mp3'')) (js ''a.mp3'') empty_world)
     = Inr \<lparr>success = False, error = Some (js ''Permission denied'')\<rparr>
   \<and> files (snd (downloadFile (read_only_runtime (\<lambda>url. Inr (ok_response [1, 2, 3])))
                   (VStr (js ''http://h/a.mp3'')) (js ''a.mp3'') empty_world)) (js ''a.mp3'')
     = None"
  by (simp add: downloadFile_unfold static_runtime_def read_only_runtime_def ok_response_def
      empty_world_def emit_def)

text \<open>
  Claim C4, amended. For every URL whose GET resolves to an OK response with the body
  bytes \<open>B\<close>, and every path at which \<open>Deno.writeFile\<close> does not fail, \<open>downloadFile\<close>
  returns the success result, and the files are those of before with exactly \<open>B\<close> at
  the path, whatever was there; the calls made are the \<open>fetch\<close> and the write.
\<close>

theorem downloadFile_writes_body:
  "fetch rt (trace w) url = Inr r \<and> ok r \<and> arrayBuffer r = Inr fileData
   \<and> writeFile_fault rt (trace w @ [Fetch url]) path fileData = None
   \<longrightarrow> downloadFile rt url path w
       = (Inr \<lparr>success = True, error = None\<rparr>,
          \<lparr>files = (files w)(path \<mapsto> Bytes fileData),
           trace = trace w @ [Fetch url, WriteFile path fileData]\<rparr>)"
  by (simp add: downloadFile_unfold emit_def)

theorem downloadFile_writes_body_witness:
  "downloadFile (static_runtime (\<lambda>url. Inr (ok_response [1, 2, 3])) (\<lambda>xml. Inr VUndefined))
     (VStr (js ''http://h/a.mp3'')) (js ''a.mp3'')
     \<lparr>files = [js ''a.mp3'' \<mapsto> Text (js ''old'')], trace = []\<rparr>
   = (Inr \<lparr>success = True, error = None\<rparr>,
      \<lparr>files = [js ''a.mp3'' \<mapsto> Bytes [1, 2, 3]],
       trace = [Fetch (VStr (js ''http://h/a.mp3'')), WriteFile (js ''a.mp3'') [1, 2, 3]]\<rparr>)"
  using downloadFile_writes_body
    [of "static_runtime (\<lambda>url. Inr (ok_response [1, 2, 3])) (\<lambda>xml. Inr VUndefined)"
        "\<lparr>files = [js ''a.mp3'' \<mapsto> Text (js ''old'')], trace = []\<rparr>"
        "VStr (js ''http://h/a.mp3'')" "ok_response [1, 2, 3]" "[1, 2, 3]" "js ''a.mp3''"]
  by (simp add: static_runtime_def ok_response_def)

section \<open>Literals and exceptions\<close>

text \<open>Distinct ASCII literals are distinct strings, so a property is looked up by its name.\<close>

lemma js_unit_inj: "(of_nat (of_char c) :: 16 word) = of_nat (of_char d) \<Longrightarrow> c = d"
proof -
  assume eq: "(of_nat (of_char c) :: 16 word) = of_nat (of_char d)"
  have small: "(of_char x :: nat) < 2 ^ LENGTH(16)" for x :: char
  proof -
    have "(of_char x :: nat) < 256" by (rule nat_of_char_less_256)
    moreover have "(256::nat) < 2 ^ LENGTH(16)" by simp
    ultimately show ?thesis by (rule less_trans)
  qed
  have c: "unat (of_nat (of_char c) :: 16 word) = of_char c"
    by (rule of_nat_inverse [OF refl small])
  have d: "unat (of_nat (of_char d) :: 16 word) = of_char d"
    by (rule of_nat_inverse [OF refl small])
  from eq have "unat (of_nat (of_char c) :: 16 word) = unat (of_nat (of_char d) :: 16 word)"
    by (rule arg_cong)
  then have "(of_char c :: nat) = of_char d"
    unfolding c d .
  then show "c = d" by simp
qed

lemma js_eq_iff [simp]: "(js a = js b) = (a = b)"
proof
  assume "js a = js b"
  then show "a = b"
    unfolding js_def
    by (induction a arbitrary: b) (auto dest: js_unit_inj)
qed simp

lemma js_Nil [simp]: "js [] = []" "(js a = []) = (a = [])" "([] = js a) = (a = [])"
  by (simp_all add: js_def)

lemma js_append: "js (a @ b) = js a @ js b"
  by (simp add: js_def)

lemma map_of_js [simp]:
  "map_of ((js k, v) # props) (js key) = (if k = key then Some v else map_of props (js key))"
  by simp

lemma bind_exn_simps [simp]:
  "bind_exn (Inl e) f = Inl e"
  "bind_exn (Inr x) f = f x"
  by (simp_all add: bind_exn_def)

lemma bind_exn_eq_Inr:
  "(bind_exn m f = Inr y) = (\<exists>x. m = Inr x \<and> f x = Inr y)"
  by (cases m) simp_all

lemma sequence_exn_map_Inr: "sequence_exn (map Inr xs) = Inr xs"
  by (induction xs) simp_all



text \<open>One element that throws makes the whole sequence throw; the first one decides the exception.\<close>

lemma sequence_exn_Inl:
  "k < length ms \<Longrightarrow> ms ! k = Inl e \<Longrightarrow> \<exists>e'. sequence_exn ms = Inl e'"
proof (induction ms arbitrary: k)
  case Nil
  then show ?case by simp
next
  case (Cons m ms)
  then show ?case by (cases k) (auto split: sum.splits)
qed

lemma sequence_exn_first_Inl:
  "k < length ms \<Longrightarrow> ms ! k = Inl e \<Longrightarrow> \<forall>j<k. \<exists>x. ms ! j = Inr x \<Longrightarrow> sequence_exn ms = Inl e"
proof (induction ms arbitrary: k)
  case Nil
  then show ?case by simp
next
  case (Cons m ms)
  show ?case
  proof (cases k)
    case 0
    with Cons.prems show ?thesis by simp
  next
    case (Suc k')
    from Cons.prems(3) Suc have "\<exists>x. (m # ms) ! 0 = Inr x" by blast
    then obtain x where m: "m = Inr x" by auto
    have "\<forall>j<k'. \<exists>x. ms ! j = Inr x"
    proof (intro allI impI)
      fix j assume "j < k'"
      then have "Suc j < k" using Suc by simp
      with Cons.prems(3) have "\<exists>x. (m # ms) ! Suc j = Inr x" by blast
      then show "\<exists>x. ms ! j = Inr x" by simp
    qed
    with Cons.IH [of k'] Cons.prems Suc have "sequence_exn ms = Inl e" by simp
    with m show ?thesis by simp
  qed
qed

subsection \<open>Paths\<close>

text \<open>
  \<open>join\<close> on the paths of the examples. A URL as a file name loses a slash, and \<open>./\<close>
  at the front of the output directory goes away.
\<close>

lemmas join_defs = posix_join_def posix_normalize_def slash_def dot_def js_def Let_def

lemma example_directories:
  "posix_join (js ''out'') (js ''audio'') = js ''out/audio''"
  "posix_join (js ''out'') (js ''images'') = js ''out/images''"
  "posix_join (js ''out'') (js ''json'') = js ''out/json''"
  by (simp_all add: join_defs)

lemma example_files:
  "posix_join (js ''out/audio'') (js ''one.mp3'') = js ''out/audio/one.mp3''"
  "posix_join (js ''out/audio'') (js ''two.mp3'') = js ''out/audio/two.mp3''"
  "posix_join (js ''out/json'') (js ''one.json'') = js ''out/json/one.json''"
  "posix_join (js ''out/json'') (js ''two.json'') = js ''out/json/two.json''"
  "posix_join (js ''out/images'') (js ''one.jpg'') = js ''out/images/one.jpg''"
  "posix_join (js ''out/images'') (js ''two.jpg'') = js ''out/images/two.jpg''"
  by (simp_all add: join_defs)

lemma example_url_as_name:
  "posix_join (js ''out/images'') (js ''one.http://localhost/cover'')
     = js ''out/images/one.http:/localhost/cover''"
  by (simp add: join_defs)

lemma example_normalized:
  "posix_join (js ''./podcast_backup'') (js ''audio'') = js ''podcast_backup/audio''"
  "posix_join (js ''a/../..'') (js ''/b/'') = js ''../b/''"
  "posix_join (js ''/a'') (js ''../../b'') = js ''/b''"
  by (simp_all add: join_defs)

section \<open>The feed parser\<close>

lemma parseRSSFeed_feed_items:
  "parseRSSFeed rt xml = bind_exn (feed_items rt xml) (array_map parse_item)"
  by (simp add: parseRSSFeed_def feed_items_def bind_exn_def split: sum.splits)



lemma parseRSSFeed_not_array:
  "feed_items rt xml = Inr v \<Longrightarrow> \<forall>xs. v \<noteq> VArr xs \<Longrightarrow> \<exists>e. parseRSSFeed rt xml = Inl e"
  by (cases v) (simp_all add: parseRSSFeed_feed_items)

lemma feed_items_doc:
  "feed_items (static_runtime net (\<lambda>xml. Inr (feed_doc items))) xmlContent
     = Inr (children_property items)"
  by (simp add: feed_items_def static_runtime_def feed_doc_def)

lemma parse_feed_item: "parse_item (feed_item t audio) = Inr (feed_episode t audio)"
  by (simp add: feed_item_def feed_episode_def parse_item_def get_prop_optional_def js_or_def
      parse_optional_int_def)

text \<open>Two items or more: an array, and every item that parses gives its episode.\<close>

lemma parseRSSFeed_several_items:
  assumes "2 \<le> length items" and "map parse_item items = map Inr eps"
  shows "parseRSSFeed (static_runtime net (\<lambda>xml. Inr (feed_doc items))) xmlContent = Inr eps"
proof -
  from assms(1) obtain a b cs where "items = a # b # cs"
    by (cases items; cases "tl items") auto
  then have "children_property items = VArr items"
    by (simp add: children_property_def)
  then show ?thesis
    by (simp add: parseRSSFeed_feed_items feed_items_doc assms(2) sequence_exn_map_Inr)
qed

lemma two_item_parse:
  "parseRSSFeed two_item_runtime xmlContent
     = Inr [feed_episode ''One'' ''http://h/1.mp3'', feed_episode ''Two'' ''http://h/2.mp3'']"
  unfolding two_item_runtime_def feed_runtime_def
  by (rule parseRSSFeed_several_items) (simp_all add: two_items_def parse_feed_item)

text \<open>
  Claim C5 fails on the code for a feed with exactly one item. The XML library gives
  the only \<open><item>\<close> as an object, not as a one-element array; \<open>parseRSSFeed\<close> calls
  \<open>items.map\<close> on whatever it finds, an object has no method \<open>map\<close>, and the call
  throws \<open>TypeError: items.map is not a function\<close>. The same item followed by a second
  one is parsed: the function returns one episode per item, in order, for two items
  or more only.
\<close>

theorem parseRSSFeed_single_item_throws:
  "feed_items (feed_runtime [feed_item ''Only'' ''http://h/1.mp3'']) xmlContent
     = Inr (feed_item ''Only'' ''http://h/1.mp3'')
   \<and> parseRSSFeed (feed_runtime [feed_item ''Only'' ''http://h/1.mp3'']) xmlContent
     = Inl (not_a_function (js ''items.map''))
   \<and> parseRSSFeed
       (feed_runtime [feed_item ''Only'' ''http://h/1.mp3'', feed_item ''Two'' ''http://h/2.mp3''])
       xmlContent
     = Inr [feed_episode ''Only'' ''http://h/1.mp3'', feed_episode ''Two'' ''http://h/2.mp3'']"
proof -
  have one: "feed_items (feed_runtime [feed_item ''Only'' ''http://h/1.mp3'']) xmlContent
      = Inr (feed_item ''Only'' ''http://h/1.mp3'')"
    by (simp add: feed_runtime_def feed_items_doc children_property_def)
  have throws: "parseRSSFeed (feed_runtime [feed_item ''Only'' ''http://h/1.mp3'']) xmlContent
      = Inl (not_a_function (js ''items.map''))"
    by (simp add: parseRSSFeed_feed_items one) (simp add: feed_item_def)
  have two: "parseRSSFeed
       (feed_runtime [feed_item ''Only'' ''http://h/1.mp3'', feed_item ''Two'' ''http://h/2.mp3''])
       xmlContent
     = Inr [feed_episode ''Only'' ''http://h/1.mp3'', feed_episode ''Two'' ''http://h/2.mp3'']"
    unfolding feed_runtime_def
    by (rule parseRSSFeed_several_items) (simp_all add: parse_feed_item)
  from one throws two show ?thesis by simp
qed

text \<open>A feed without any item throws as well: there is no property \<open>item\<close> to call \<open>map\<close> on.\<close>

lemma parseRSSFeed_no_item_throws:
  "parseRSSFeed (feed_runtime []) xmlContent = Inl (cannot_read VUndefined (js ''map''))"
  by (simp add: parseRSSFeed_feed_items feed_runtime_def feed_items_doc children_property_def)

subsection \<open>Season and episode\<close>

lemma get_prop_defined: "v \<noteq> VUndefined \<Longrightarrow> v \<noteq> VNull \<Longrightarrow> \<exists>x. get_prop v key = Inr x"
  by (cases v) simp_all

lemma get_prop_optional_Inr: "\<exists>x. get_prop_optional v key = Inr x"
  by (cases v) (simp_all add: get_prop_optional_def)

lemma get_prop_obj: "get_prop (VObj props) key = Inr (prop_value props key)"
  by (simp add: prop_value_def)

lemma parse_item_Inr_D:
  "parse_item item = Inr ep \<Longrightarrow>
     (\<exists>enc. get_prop item (js ''enclosure'') = Inr enc \<and> get_prop enc (js ''@url'') = Inr (audioUrl ep))
     \<and> (\<exists>sv. get_prop item (js ''itunes:season'') = Inr sv \<and> parse_optional_int sv = Inr (season ep))
     \<and> (\<exists>ev. get_prop item (js ''itunes:episode'') = Inr ev \<and> parse_optional_int ev = Inr (episode ep))"
  unfolding parse_item_def bind_exn_eq_Inr by auto
















text \<open>From \<open>2^1024\<close> on the Number is the infinity: so for 1 followed by 400 zeros.\<close>

lemma bit_length_bounds: "0 < n \<Longrightarrow> 2 ^ (bit_length n - 1) \<le> n \<and> n < 2 ^ bit_length n"
proof (induction n rule: bit_length.induct)
  case (1 n)
  show ?case
  proof (cases "n div 2 = 0")
    case True
    with 1 have "n = 1" by auto
    then show ?thesis by (simp add: bit_length.simps)
  next
    case False
    then have pos: "0 < n div 2" by simp
    from 1 pos have ih: "2 ^ (bit_length (n div 2) - 1) \<le> n div 2 \<and> n div 2 < 2 ^ bit_length (n div 2)"
      by simp
    have bl: "bit_length n = Suc (bit_length (n div 2))"
      using 1 by (subst bit_length.simps) simp
    have "0 < bit_length (n div 2)"
      using pos by (subst bit_length.simps) simp
    then obtain k where k: "bit_length (n div 2) = Suc k"
      by (cases "bit_length (n div 2)") auto
    from ih k have "2 ^ k \<le> n div 2" "n div 2 < 2 ^ Suc k" by simp_all
    then have "2 * 2 ^ k \<le> n" "n < 2 * 2 ^ Suc k" by auto
    then show ?thesis by (simp add: bl k)
  qed
qed

lemma round_to_double_overflow:
  assumes "2 ^ 1024 \<le> n"
  shows "round_to_double n = None"
proof -
  have big: "\<not> n < 2 ^ 53"
  proof
    assume "n < 2 ^ 53"
    moreover have "(2::nat) ^ 53 \<le> 2 ^ 1024" by (rule power_increasing) simp_all
    ultimately show False using assms by simp
  qed
  have pos: "0 < n" using assms by (cases "n = 0") simp_all
  from bit_length_bounds [OF pos]
  have lo: "2 ^ (bit_length n - 1) \<le> n" and hi: "n < 2 ^ bit_length n" by simp_all
  from assms hi have "(2::nat) ^ 1024 < 2 ^ bit_length n" by simp
  then have b: "1024 < bit_length n"
    by (rule power_less_imp_less_exp [rotated]) simp
  define e where "e = bit_length n - 53"
  define q where "q = n div 2 ^ e"
  have eb: "bit_length n - 1 = 52 + e" using b by (simp add: e_def)
  have e2: "0 < (2::nat) ^ e" by simp
  have lo2: "(2::nat) ^ 52 * 2 ^ e \<le> n" using lo unfolding eb power_add .
  have q52: "2 ^ 52 \<le> q"
    unfolding q_def using lo2 by (simp only: less_eq_div_iff_mult_less_eq [OF e2])
  have "1024 \<le> 52 + e" using b by (simp add: e_def)
  then have "(2::nat) ^ 1024 \<le> 2 ^ (52 + e)" by (rule power_increasing) simp
  then have "(2::nat) ^ 1024 \<le> 2 ^ 52 * 2 ^ e" unfolding power_add .
  also have "\<dots> \<le> q * 2 ^ e" using q52 by (rule mult_le_mono1)
  finally have q: "2 ^ 1024 \<le> q * 2 ^ e" .
  also have "q * 2 ^ e \<le> (q + 1) * 2 ^ e" by (rule mult_le_mono1) simp
  finally have q1: "2 ^ 1024 \<le> (q + 1) * 2 ^ e" .
  show ?thesis
    using big q q1
    by (simp add: round_to_double_def Let_def e_def [symmetric] q_def [symmetric])
qed

lemma to_number_overflow: "to_number False (10 ^ 400) = PosInfinity"
proof -
  have "(2::nat) ^ 1024 \<le> 10 ^ 400" by simp
  from round_to_double_overflow [OF this] show ?thesis
    by (simp add: to_number_def)
qed




section \<open>The extension of the image file\<close>

lemma split_on_nonempty: "split_on sep s \<noteq> []"
  by (induction s) (auto split: list.splits)

lemma split_on_no_sep: "sep \<notin> set s \<Longrightarrow> split_on sep s = [s]"
  by (induction s) auto

lemma split_on_two: "sep \<in> set s \<Longrightarrow> \<exists>p q qs. split_on sep s = p # q # qs"
proof (induction s)
  case Nil
  then show ?case by simp
next
  case (Cons c cs)
  show ?case
  proof (cases "c = sep")
    case True
    then show ?thesis
      using split_on_nonempty [of sep cs] by (cases "split_on sep cs") auto
  next
    case False
    with Cons.prems have "sep \<in> set cs" by simp
    from Cons.IH [OF this] False show ?thesis by auto
  qed
qed

lemma last_split_on_append:
  "last (split_on sep (before @ sep # rest)) = last (split_on sep rest)"
proof (induction before)
  case Nil
  then show ?case by (simp add: split_on_nonempty)
next
  case (Cons c cs)
  have "sep \<in> set (cs @ sep # rest)" by simp
  from split_on_two [OF this] obtain p q qs where "split_on sep (cs @ sep # rest) = p # q # qs"
    by blast
  with Cons show ?case by auto
qed

text \<open>
  What the code does with a URL: what follows the last dot when something follows
  it, \<open>jpg\<close> when the URL ends with a dot, and the whole URL when it has no dot.
\<close>

lemma image_ext_after_last_dot:
  "dot \<notin> set ext \<Longrightarrow> ext \<noteq> [] \<Longrightarrow> image_ext (before @ dot # ext) = ext"
  by (simp add: image_ext_def pop_def split_on_nonempty last_split_on_append split_on_no_sep)

lemma image_ext_trailing_dot: "image_ext (before @ [dot]) = js ''jpg''"
  by (simp add: image_ext_def pop_def split_on_nonempty last_split_on_append)

lemma image_ext_no_dot: "dot \<notin> set url \<Longrightarrow> url \<noteq> [] \<Longrightarrow> image_ext url = url"
  by (simp add: image_ext_def pop_def split_on_no_sep)

lemma image_ext_empty: "image_ext [] = js ''jpg''"
  by (simp add: image_ext_def pop_def)

lemma sanitize_one: "sanitizeFilename ud (js ''One'') = js ''one''"
  by (simp add: sanitizeFilename_eq_spec spec_sanitize_def js_def unit_classes)

lemma sanitize_two: "sanitizeFilename ud (js ''Two'') = js ''two''"
  by (simp add: sanitizeFilename_eq_spec spec_sanitize_def js_def unit_classes)

lemma two_item_runtime_fields:
  "unicode two_item_runtime = plain_unicode"
  "fetch two_item_runtime = (\<lambda>h. two_item_net)"
  "ensureDir_fault two_item_runtime = (\<lambda>h d. None)"
  "writeFile_fault two_item_runtime = (\<lambda>h p d. None)"
  "writeTextFile_fault two_item_runtime = (\<lambda>h p c. None)"
  "path_join two_item_runtime = posix_join"
  "JSON_stringify two_item_runtime = title_text"
  by (simp_all add: two_item_runtime_def feed_runtime_def static_runtime_def)

text \<open>
  Claim C7 fails on the code for an image URL without a dot. \<open>split('.')\<close> of such a
  URL is the one-element array of the URL itself, \<open>pop()\<close> returns the URL, which is
  not empty, so \<open>|| 'jpg'\<close> is not reached: the "extension" is the whole URL, and the
  file name given to \<open>join\<close> is \<open>{baseFilename}.{url}\<close>, whatever \<open>join\<close> is. On a POSIX
  system \<open>join\<close> normalizes the two slashes of the URL to one, and the image goes to
  \<open>out/images/one.http:/localhost/cover\<close>. The fallback \<open>jpg\<close> is taken only for a URL
  that ends with a dot.
\<close>

theorem image_ext_without_dot_is_the_url:
  "image_ext (js ''http://localhost/cover'') = js ''http://localhost/cover''
   \<and> image_ext (js ''http://localhost/cover'') \<noteq> js ''jpg''
   \<and> image_path rt dirs (js ''One'') (js ''http://localhost/cover'')
       = path_join rt (imageDir dirs) (js ''one.http://localhost/cover'')
   \<and> image_path two_item_runtime out_directories (js ''One'') (js ''http://localhost/cover'')
       = js ''out/images/one.http:/localhost/cover''"
proof -
  have "dot \<notin> set (js ''http://localhost/cover'')"
    by (simp add: js_def dot_def)
  moreover have "js ''http://localhost/cover'' \<noteq> []"
    by simp
  ultimately have ext: "image_ext (js ''http://localhost/cover'') = js ''http://localhost/cover''"
    by (rule image_ext_no_dot)
  have name: "image_path rt dirs (js ''One'') (js ''http://localhost/cover'')
       = path_join rt (imageDir dirs) (js ''one.http://localhost/cover'')" for rt dirs
    by (simp add: image_path_def ext sanitize_one js_append [symmetric])
  have "image_path two_item_runtime out_directories (js ''One'') (js ''http://localhost/cover'')
       = js ''out/images/one.http:/localhost/cover''"
    by (simp add: name out_directories_def two_item_runtime_fields example_url_as_name)
  with ext name show ?thesis by simp
qed
section \<open>The orchestrator\<close>

subsection \<open>The directories, the feed and the handler\<close>

lemma make_directories_unfold:
  "make_directories rt out w =
     (let dirs = directories_of rt out in
      case ensureDir_fault rt (trace w) (audioDir dirs) of
        Some e \<Rightarrow> (Inl e, w\<lparr>trace := trace w @ [EnsureDir (audioDir dirs)]\<rparr>)
      | None \<Rightarrow>
         (case ensureDir_fault rt (trace w @ [EnsureDir (audioDir dirs)]) (imageDir dirs) of
            Some e \<Rightarrow>
              (Inl e, w\<lparr>trace := trace w @ [EnsureDir (audioDir dirs), EnsureDir (imageDir dirs)]\<rparr>)
          | None \<Rightarrow>
             (case ensureDir_fault rt
                     (trace w @ [EnsureDir (audioDir dirs), EnsureDir (imageDir dirs)])
                     (jsonDir dirs) of
                Some e \<Rightarrow>
                  (Inl e, w\<lparr>trace := trace w @ [EnsureDir (audioDir dirs),
                     EnsureDir (imageDir dirs), EnsureDir (jsonDir dirs)]\<rparr>)
              | None \<Rightarrow>
                  (Inr dirs, w\<lparr>trace := trace w @ [EnsureDir (audioDir dirs),
                     EnsureDir (imageDir dirs), EnsureDir (jsonDir dirs)]\<rparr>))))"
  by (simp add: make_directories_def directories_of_def io_bind_def do_ensureDir_def emit_def
      io_return_def Let_def split: option.splits)

lemma make_directories_files: "make_directories rt out w = (r, w1) \<Longrightarrow> files w1 = files w"
  by (auto simp: make_directories_unfold Let_def split: option.splits)

lemma make_directories_Inr:
  "make_directories rt out w = (Inr dirs, w1) \<Longrightarrow>
     dirs = directories_of rt out
     \<and> w1 = w\<lparr>trace := trace w @ [EnsureDir (audioDir dirs), EnsureDir (imageDir dirs),
                                   EnsureDir (jsonDir dirs)]\<rparr>"
  by (auto simp: make_directories_unfold Let_def split: option.splits)

lemma make_directories_ok:
  assumes "\<forall>h d. ensureDir_fault rt h d = None"
  shows "make_directories rt out w
     = (Inr (directories_of rt out),
        w\<lparr>trace := trace w @ [EnsureDir (audioDir (directories_of rt out)),
                               EnsureDir (imageDir (directories_of rt out)),
                               EnsureDir (jsonDir (directories_of rt out))]\<rparr>)"
  by (simp add: make_directories_unfold assms Let_def)

lemma load_episodes_unfold:
  "load_episodes rt url w =
     (bind_exn (fetch rt (trace w) (VStr url)) (\<lambda>r. bind_exn (text_of r) (parseRSSFeed rt)),
      emit (Fetch (VStr url)) w)"
  by (simp add: load_episodes_def io_bind_def do_fetch_def io_lift_def bind_exn_def
      split: sum.splits)

lemma backupPodcast_unfold:
  "backupPodcast rt url out w =
     (case backup_body rt url out w of
        (Inl e, w') \<Rightarrow> (Inr (), emit (ConsoleError [js ''Error during backup:'', message_of e]) w')
      | (Inr u, w') \<Rightarrow> (Inr (), w'))"
  by (simp add: backupPodcast_def try_catch_def console_error_def split: prod.splits sum.splits)

lemma backupPodcast_returns: "\<exists>w'. backupPodcast rt url out w = (Inr (), w')"
  by (simp add: backupPodcast_unfold split: prod.splits sum.splits)

lemma backup_body_no_directories:
  "make_directories rt out w = (Inl e, w1) \<Longrightarrow> backup_body rt url out w = (Inl e, w1)"
  by (simp add: backup_body_def io_bind_def)

lemma backup_body_no_feed:
  "make_directories rt out w = (Inr dirs, w1) \<Longrightarrow>
   bind_exn (fetch rt (trace w1) (VStr url)) (\<lambda>r. bind_exn (text_of r) (parseRSSFeed rt)) = Inl e \<Longrightarrow>
   backup_body rt url out w = (Inl e, emit (Fetch (VStr url)) w1)"
  by (simp add: backup_body_def io_bind_def load_episodes_unfold)

lemma backupPodcast_no_feed:
  "make_directories rt out w = (Inr dirs, w1) \<Longrightarrow>
   bind_exn (fetch rt (trace w1) (VStr url)) (\<lambda>r. bind_exn (text_of r) (parseRSSFeed rt)) = Inl e \<Longrightarrow>
   backupPodcast rt url out w
     = (Inr (), w1\<lparr>trace := trace w1 @ [Fetch (VStr url),
                                         ConsoleError [js ''Error during backup:'', message_of e]]\<rparr>)"
  by (simp add: backupPodcast_unfold backup_body_no_feed emit_def)

lemma static_directories:
  "make_directories (static_runtime net xml) (js ''out'') empty_world
     = (Inr out_directories,
        \<lparr>files = Map.empty,
         trace = [EnsureDir (js ''out/audio''), EnsureDir (js ''out/images''),
                  EnsureDir (js ''out/json'')]\<rparr>)"
  by (simp add: make_directories_unfold directories_of_def out_directories_def static_runtime_def
      example_directories empty_world_def)

lemma no_directories:
  "make_directories no_directories_runtime (js ''out'') empty_world
     = (Inl (ErrorInstance (js ''Permission denied'')),
        \<lparr>files = Map.empty, trace = [EnsureDir (js ''out/audio'')]\<rparr>)"
  by (simp add: make_directories_unfold directories_of_def no_directories_runtime_def
      static_runtime_def example_directories empty_world_def)

subsection \<open>An item without an enclosure\<close>

lemma parse_item_no_enclosure:
  assumes "map_of props (js ''enclosure'') = None"
  shows "\<exists>e. parse_item (VObj props) = Inl e"
proof (cases "parse_item (VObj props)")
  case (Inl e)
  then show ?thesis by blast
next
  case (Inr ep)
  from parse_item_Inr_D [OF this] assms show ?thesis by auto
qed

lemma parse_item_no_enclosure_error:
  assumes "map_of props (js ''enclosure'') = None"
    and "prop_value props (js ''guid'') \<noteq> VUndefined"
    and "prop_value props (js ''guid'') \<noteq> VNull"
  shows "parse_item (VObj props) = Inl (cannot_read VUndefined (js ''@url''))"
proof -
  from get_prop_defined [OF assms(2,3)]
  obtain x where x: "get_prop (prop_value props (js ''guid'')) (js ''#text'') = Inr x" by blast
  obtain y where y: "get_prop_optional (prop_value props (js ''itunes:image'')) (js ''@href'') = Inr y"
    using get_prop_optional_Inr by blast
  have enc: "prop_value props (js ''enclosure'') = VUndefined"
    using assms(1) by (simp add: prop_value_def)
  show ?thesis
    unfolding parse_item_def get_prop_obj by (simp add: x y enc)
qed

text \<open>
  Claim C10. Let the feed's items be an array and let one of them be an object without
  an \<open>enclosure\<close> property. Then \<open>parseRSSFeed\<close> throws. When the items before it
  parse and the item itself has a guid, the exception is the \<open>TypeError\<close> of reading
  \<open>@url\<close> of \<open>undefined\<close>, the read of that item's audio URL. And a run of
  \<open>backupPodcast\<close> that has made its directories and fetched this feed ends with the
  fatal-error line: the calls made are those of the directories and the \<open>fetch\<close> of
  the feed, the files are unchanged, no episode is processed, not even those of the
  well-formed items.
\<close>

theorem missing_enclosure_is_fatal:
  "feed_items rt xml = Inr (VArr items) \<and> k < length items \<and> items ! k = VObj props
   \<and> map_of props (js ''enclosure'') = None
   \<longrightarrow> (\<exists>e. parseRSSFeed rt xml = Inl e)
       \<and> ((\<forall>j<k. \<exists>ep. parse_item (items ! j) = Inr ep)
            \<and> prop_value props (js ''guid'') \<noteq> VUndefined
            \<and> prop_value props (js ''guid'') \<noteq> VNull
          \<longrightarrow> parseRSSFeed rt xml = Inl (cannot_read VUndefined (js ''@url'')))
       \<and> (\<forall>dirs w1 r.
             make_directories rt out w = (Inr dirs, w1)
             \<and> fetch rt (trace w1) (VStr url) = Inr r \<and> text_of r = Inr xml
             \<longrightarrow> (\<exists>e. parseRSSFeed rt xml = Inl e
                     \<and> backupPodcast rt url out w
                         = (Inr (), \<lparr>files = files w,
                                     trace = trace w @ [EnsureDir (audioDir dirs),
                                       EnsureDir (imageDir dirs), EnsureDir (jsonDir dirs),
                                       Fetch (VStr url),
                                       ConsoleError [js ''Error during backup:'', message_of e]]\<rparr>)))"
proof (intro impI)
  assume h: "feed_items rt xml = Inr (VArr items) \<and> k < length items \<and> items ! k = VObj props
      \<and> map_of props (js ''enclosure'') = None"
  then have items: "feed_items rt xml = Inr (VArr items)" and k: "k < length items"
    and item: "items ! k = VObj props" and none: "map_of props (js ''enclosure'') = None"
    by simp_all
  have feed: "parseRSSFeed rt xml = sequence_exn (map parse_item items)"
    by (simp add: parseRSSFeed_feed_items items)
  obtain e0 where e0: "parse_item (items ! k) = Inl e0"
    using parse_item_no_enclosure [OF none] item by auto
  have throws: "\<exists>e. parseRSSFeed rt xml = Inl e"
    unfolding feed using sequence_exn_Inl [of k "map parse_item items" e0] k e0 by simp
  have which: "parseRSSFeed rt xml = Inl (cannot_read VUndefined (js ''@url''))"
    if before: "\<forall>j<k. \<exists>ep. parse_item (items ! j) = Inr ep"
      and guid: "prop_value props (js ''guid'') \<noteq> VUndefined" "prop_value props (js ''guid'') \<noteq> VNull"
  proof -
    have "parse_item (items ! k) = Inl (cannot_read VUndefined (js ''@url''))"
      using parse_item_no_enclosure_error [OF none guid] item by simp
    moreover have "\<forall>j<k. \<exists>x. map parse_item items ! j = Inr x"
      using before k by simp
    ultimately show ?thesis
      unfolding feed
      using sequence_exn_first_Inl [of k "map parse_item items" "cannot_read VUndefined (js ''@url'')"] k
      by simp
  qed
  have run: "\<exists>e. parseRSSFeed rt xml = Inl e
        \<and> backupPodcast rt url out w
            = (Inr (), \<lparr>files = files w,
                        trace = trace w @ [EnsureDir (audioDir dirs),
                          EnsureDir (imageDir dirs), EnsureDir (jsonDir dirs),
                          Fetch (VStr url),
                          ConsoleError [js ''Error during backup:'', message_of e]]\<rparr>)"
    if dirs: "make_directories rt out w = (Inr dirs, w1)"
      and fetch: "fetch rt (trace w1) (VStr url) = Inr r" and body: "text_of r = Inr xml"
    for dirs w1 r
  proof -
    from throws obtain e where e: "parseRSSFeed rt xml = Inl e" by blast
    have "bind_exn (fetch rt (trace w1) (VStr url)) (\<lambda>r. bind_exn (text_of r) (parseRSSFeed rt)) = Inl e"
      by (simp add: fetch body e)
    from backupPodcast_no_feed [OF dirs this] make_directories_Inr [OF dirs]
    have "backupPodcast rt url out w
        = (Inr (), \<lparr>files = files w,
                    trace = trace w @ [EnsureDir (audioDir dirs),
                      EnsureDir (imageDir dirs), EnsureDir (jsonDir dirs),
                      Fetch (VStr url),
                      ConsoleError [js ''Error during backup:'', message_of e]]\<rparr>)"
      by simp
    with e show ?thesis by blast
  qed
  from throws which run
  show "(\<exists>e. parseRSSFeed rt xml = Inl e)
       \<and> ((\<forall>j<k. \<exists>ep. parse_item (items ! j) = Inr ep)
            \<and> prop_value props (js ''guid'') \<noteq> VUndefined
            \<and> prop_value props (js ''guid'') \<noteq> VNull
          \<longrightarrow> parseRSSFeed rt xml = Inl (cannot_read VUndefined (js ''@url'')))
       \<and> (\<forall>dirs w1 r.
             make_directories rt out w = (Inr dirs, w1)
             \<and> fetch rt (trace w1) (VStr url) = Inr r \<and> text_of r = Inr xml
             \<longrightarrow> (\<exists>e. parseRSSFeed rt xml = Inl e
                     \<and> backupPodcast rt url out w
                         = (Inr (), \<lparr>files = files w,
                                     trace = trace w @ [EnsureDir (audioDir dirs),
                                       EnsureDir (imageDir dirs), EnsureDir (jsonDir dirs),
                                       Fetch (VStr url),
                                       ConsoleError [js ''Error during backup:'', message_of e]]\<rparr>)))"
    by blast
qed

text \<open>A feed whose first item is well-formed and whose second item has no enclosure.\<close>

theorem missing_enclosure_is_fatal_witness:
  "parseRSSFeed (feed_runtime [feed_item ''One'' ''http://h/1.mp3'', no_enclosure_item])
     (js ''<rss/>'')
     = Inl (cannot_read VUndefined (js ''@url''))
   \<and> backupPodcast (feed_runtime [feed_item ''One'' ''http://h/1.mp3'', no_enclosure_item])
       (js ''http://h/feed'') (js ''out'') empty_world
       = (Inr (), \<lparr>files = Map.empty,
                   trace = [EnsureDir (js ''out/audio''), EnsureDir (js ''out/images''),
                            EnsureDir (js ''out/json''), Fetch (VStr (js ''http://h/feed'')),
                            ConsoleError [js ''Error during backup:'',
                                          message_of (cannot_read VUndefined (js ''@url''))]]\<rparr>)"
proof -
  let ?items = "[feed_item ''One'' ''http://h/1.mp3'', no_enclosure_item]"
  let ?rt = "feed_runtime ?items"
  let ?props = "[(js ''title'', VStr (js ''Broken'')), (js ''guid'', VStr (js ''g2''))]"
  have items: "feed_items ?rt (js ''<rss/>'') = Inr (VArr ?items)"
    by (simp add: feed_runtime_def feed_items_doc children_property_def)
  have item: "?items ! 1 = VObj ?props"
    by (simp add: no_enclosure_item_def)
  have none: "map_of ?props (js ''enclosure'') = None"
    by simp
  have before: "\<forall>j<1. \<exists>ep. parse_item (?items ! j) = Inr ep"
    by (simp add: parse_feed_item)
  have guid: "prop_value ?props (js ''guid'') = VStr (js ''g2'')"
    by (simp add: prop_value_def)
  have dirs: "make_directories ?rt (js ''out'') empty_world
      = (Inr out_directories,
         \<lparr>files = Map.empty,
          trace = [EnsureDir (js ''out/audio''), EnsureDir (js ''out/images''),
                   EnsureDir (js ''out/json'')]\<rparr>)"
    unfolding feed_runtime_def by (rule static_directories)
  have fetch: "fetch ?rt h (VStr (js ''http://h/feed'')) = Inr feed_response" for h
    by (simp add: feed_runtime_def static_runtime_def two_item_net_def)
  have body: "text_of feed_response = Inr (js ''<rss/>'')"
    by (simp add: feed_response_def)
  from missing_enclosure_is_fatal
    [of ?rt "js ''<rss/>''" ?items 1 ?props "js ''out''" empty_world "js ''http://h/feed''"]
    items item none before
  show ?thesis
    unfolding dirs guid
    by (simp add: fetch body) (auto simp: empty_world_def out_directories_def)
qed

subsection \<open>The loop body, step by step\<close>

lemma console_log_with_str:
  "console_log_with before (VStr t) w = (Inr (), w\<lparr>trace := trace w @ [ConsoleLog (before @ t)]\<rparr>)"
  by (simp add: console_log_with_def io_bind_def io_lift_def console_log_def emit_def)

lemma audio_step_unfold:
  assumes "title ep = VStr t"
  shows "audio_step rt dirs ep base w =
     (if ToBoolean (audioUrl ep) then
        (case downloadFile rt (audioUrl ep) (path_join rt (audioDir dirs) (base @ js ''.mp3'')) w of
           (Inr r, w1) \<Rightarrow>
             (Inr (), w1\<lparr>trace := trace w1
                 @ ConsoleLog (js ''Audio download '' @ outcome_word r @ js '': '' @ t)
                 # (if success r then []
                    else [ConsoleError [js ''Error downloading audio: '' @ error_text r]])\<rparr>)
         | (Inl e, w1) \<Rightarrow> (Inl e, w1))
      else (Inr (), w))"
  by (simp add: audio_step_def assms io_bind_def console_log_with_str console_error_def emit_def
      io_return_def Let_def split: prod.splits sum.splits)

lemma image_step_unfold:
  assumes "title ep = VStr t" and "imageUrl ep = VStr i"
  shows "image_step rt dirs ep base w =
     (if i \<noteq> [] then
        (case downloadFile rt (VStr i)
                (path_join rt (imageDir dirs) (base @ js ''.'' @ image_ext i)) w of
           (Inr r, w1) \<Rightarrow>
             (Inr (), w1\<lparr>trace := trace w1
                 @ ConsoleLog (js ''Image download '' @ outcome_word r @ js '': '' @ t)
                 # (if success r then []
                    else [ConsoleError [js ''Error downloading image: '' @ error_text r]])\<rparr>)
         | (Inl e, w1) \<Rightarrow> (Inl e, w1))
      else (Inr (), w))"
  by (simp add: image_step_def assms io_bind_def io_lift_def console_log_with_str
      console_error_def emit_def io_return_def Let_def split: prod.splits sum.splits)

lemma json_step_unfold:
  assumes "title ep = VStr t"
  shows "json_step rt dirs ep base w =
     (let jsonPath = path_join rt (jsonDir dirs) (base @ js ''.json'');
          content = JSON_stringify rt ep
      in case writeTextFile_fault rt (trace w) jsonPath content of
           Some e \<Rightarrow> (Inl e, w\<lparr>trace := trace w @ [WriteTextFile jsonPath content]\<rparr>)
         | None \<Rightarrow>
             (Inr (), w\<lparr>files := (files w)(jsonPath \<mapsto> Text content),
                        trace := trace w @ [WriteTextFile jsonPath content,
                                            ConsoleLog (js ''JSON metadata saved: '' @ t)]\<rparr>))"
  by (simp add: json_step_def assms io_bind_def do_writeTextFile_def console_log_with_str
      emit_def Let_def split: option.splits)

lemma process_episode_unfold:
  assumes "title ep = VStr t"
  shows "process_episode rt dirs ep w =
     (let base = sanitizeFilename (unicode rt) t;
          w0 = w\<lparr>trace := trace w @ [ConsoleLog (js ''Processing episode: '' @ t)]\<rparr>
      in case audio_step rt dirs ep base w0 of
           (Inl e, w1) \<Rightarrow> (Inl e, w1)
         | (Inr u, w1) \<Rightarrow>
             (case image_step rt dirs ep base w1 of
                (Inl e, w2) \<Rightarrow> (Inl e, w2)
              | (Inr u, w2) \<Rightarrow> json_step rt dirs ep base w2))"
  by (simp add: process_episode_def assms io_bind_def io_lift_def console_log_with_str Let_def
      split: prod.splits sum.splits)

text \<open>
  What a download does to the world: it returns a result, it calls \<open>fetch\<close>, and it
  leaves the files as they were or puts bytes at its path.
\<close>

lemma downloadFile_effect:
  assumes "downloadFile rt url path w = (res, w1)"
  shows "\<exists>r evs. res = Inr r \<and> trace w1 = trace w @ Fetch url # evs
           \<and> (files w1 = files w \<or> (\<exists>fileData. files w1 = (files w)(path \<mapsto> Bytes fileData)))"
  using assms
  by (auto simp: downloadFile_unfold emit_def split: sum.splits option.splits if_splits)

lemma audio_step_effect:
  assumes "title ep = VStr t"
  shows "\<exists>w1 evs. audio_step rt dirs ep base w = (Inr (), w1) \<and> trace w1 = trace w @ evs
           \<and> (ToBoolean (audioUrl ep) \<longrightarrow> Fetch (audioUrl ep) \<in> set evs)
           \<and> (files w1 = files w
               \<or> (\<exists>fileData. files w1
                     = (files w)(path_join rt (audioDir dirs) (base @ js ''.mp3'') \<mapsto> Bytes fileData)))"
proof (cases "ToBoolean (audioUrl ep)")
  case False
  then show ?thesis by (simp add: audio_step_unfold [OF assms])
next
  case True
  obtain res w1 where d: "downloadFile rt (audioUrl ep)
      (path_join rt (audioDir dirs) (base @ js ''.mp3'')) w = (res, w1)"
    by (cases "downloadFile rt (audioUrl ep) (path_join rt (audioDir dirs) (base @ js ''.mp3'')) w")
  from downloadFile_effect [OF d] obtain r evs where
    r: "res = Inr r" "trace w1 = trace w @ Fetch (audioUrl ep) # evs"
    "files w1 = files w \<or> (\<exists>fileData. files w1
        = (files w)(path_join rt (audioDir dirs) (base @ js ''.mp3'') \<mapsto> Bytes fileData))"
    by blast
  show ?thesis
    using True d r by (simp add: audio_step_unfold [OF assms])
qed

lemma image_step_effect:
  assumes "title ep = VStr t" and "imageUrl ep = VStr i"
  shows "\<exists>w1 evs. image_step rt dirs ep base w = (Inr (), w1) \<and> trace w1 = trace w @ evs
           \<and> (ToBoolean (imageUrl ep) \<longrightarrow> Fetch (imageUrl ep) \<in> set evs)
           \<and> (files w1 = files w
               \<or> (\<exists>fileData. files w1
                     = (files w)(path_join rt (imageDir dirs) (base @ js ''.'' @ image_ext i)
                                   \<mapsto> Bytes fileData)))"
proof (cases "i = []")
  case True
  then show ?thesis by (simp add: image_step_unfold [OF assms] assms)
next
  case False
  obtain res w1 where d: "downloadFile rt (VStr i)
      (path_join rt (imageDir dirs) (base @ js ''.'' @ image_ext i)) w = (res, w1)"
    by (cases "downloadFile rt (VStr i) (path_join rt (imageDir dirs) (base @ js ''.'' @ image_ext i)) w")
  from downloadFile_effect [OF d] obtain r evs where
    r: "res = Inr r" "trace w1 = trace w @ Fetch (VStr i) # evs"
    "files w1 = files w \<or> (\<exists>fileData. files w1
        = (files w)(path_join rt (imageDir dirs) (base @ js ''.'' @ image_ext i) \<mapsto> Bytes fileData))"
    by blast
  show ?thesis
    using False d r by (simp add: image_step_unfold [OF assms] assms)
qed




subsection \<open>The example of two items\<close>

lemma two_item_net_answers:
  "two_item_net (VStr (js ''http://h/feed'')) = Inr feed_response"
  "two_item_net (VStr (js ''http://h/1.mp3'')) = Inr not_found_response"
  "two_item_net (VStr (js ''http://h/2.mp3'')) = Inr (ok_response [1, 2, 3])"
  by (simp_all add: two_item_net_def)

lemma two_item_paths:
  "audio_path two_item_runtime out_directories (js ''One'') = js ''out/audio/one.mp3''"
  "audio_path two_item_runtime out_directories (js ''Two'') = js ''out/audio/two.mp3''"
  "json_path two_item_runtime out_directories (js ''One'') = js ''out/json/one.json''"
  "json_path two_item_runtime out_directories (js ''Two'') = js ''out/json/two.json''"
  "image_path two_item_runtime out_directories (js ''One'') [] = js ''out/images/one.jpg''"
  "image_path two_item_runtime out_directories (js ''Two'') [] = js ''out/images/two.jpg''"
  by (simp_all add: audio_path_def json_path_def image_path_def out_directories_def
      two_item_runtime_fields sanitize_one sanitize_two example_files image_ext_empty
      js_append [symmetric])

lemmas io_defs = io_bind_def io_return_def io_throw_def io_lift_def try_catch_def emit_def
  console_log_def console_error_def console_log_with_def do_fetch_def do_ensureDir_def
  do_writeFile_def do_writeTextFile_def

lemmas program_defs = backupPodcast_def backup_body_def make_directories_def load_episodes_def
  process_episode_def audio_step_def image_step_def json_step_def downloadFile_def
  failed_to_download_def outcome_word_def error_text_def

subsection \<open>Failures of the metadata write\<close>

text \<open>
  A pass of the loop in which the metadata cannot be written: the downloads are made,
  the write is tried, and its exception leaves the pass.
\<close>

lemma process_episode_metadata_fault:
  assumes t: "title ep = VStr t" and i: "imageUrl ep = VStr i"
    and fault: "\<forall>h c. writeTextFile_fault rt h (json_path rt dirs t) c = Some e"
  shows "\<exists>w' evs. process_episode rt dirs ep w = (Inl e, w')
           \<and> trace w' = trace w @ evs
                 @ [WriteTextFile (json_path rt dirs t) (JSON_stringify rt ep)]"
proof -
  let ?base = "sanitizeFilename (unicode rt) t"
  let ?w0 = "w\<lparr>trace := trace w @ [ConsoleLog (js ''Processing episode: '' @ t)]\<rparr>"
  from audio_step_effect [OF t, of rt dirs ?base ?w0]
  obtain w1 evs1 where a: "audio_step rt dirs ep ?base ?w0 = (Inr (), w1)"
    and a_trace: "trace w1 = trace ?w0 @ evs1"
    by blast
  from image_step_effect [OF t i, of rt dirs ?base w1]
  obtain w2 evs2 where m: "image_step rt dirs ep ?base w1 = (Inr (), w2)"
    and m_trace: "trace w2 = trace w1 @ evs2"
    by blast
  let ?jp = "path_join rt (jsonDir dirs) (?base @ js ''.json'')"
  have jp: "json_path rt dirs t = ?jp"
    by (simp add: json_path_def)
  let ?w3 = "w2\<lparr>trace := trace w2 @ [WriteTextFile ?jp (JSON_stringify rt ep)]\<rparr>"
  have j: "json_step rt dirs ep ?base w2 = (Inl e, ?w3)"
    using fault by (simp add: json_step_unfold [OF t] Let_def jp)
  have run: "process_episode rt dirs ep w = (Inl e, ?w3)"
    using a m j by (simp add: process_episode_unfold [OF t] Let_def)
  have "trace ?w3 = trace w @ (ConsoleLog (js ''Processing episode: '' @ t) # evs1 @ evs2)
      @ [WriteTextFile (json_path rt dirs t) (JSON_stringify rt ep)]"
    by (simp add: a_trace m_trace jp)
  with run show ?thesis by blast
qed

text \<open>
  The run of the feed of two items on a file system that refuses every write of
  metadata, event by event.
\<close>

lemma no_metadata_run:
  "backupPodcast no_metadata_runtime (js ''http://h/feed'') (js ''out'') empty_world
   = (Inr (),
      \<lparr>files = Map.empty,
       trace =
         [EnsureDir (js ''out/audio''), EnsureDir (js ''out/images''), EnsureDir (js ''out/json''),
          Fetch (VStr (js ''http://h/feed'')),
          ConsoleLog (js ''Processing episode: One''),
          Fetch (VStr (js ''http://h/1.mp3'')),
          ConsoleLog (js ''Audio download failed: One''),
          ConsoleError [js ''Error downloading audio: Failed to download: 404 Not Found''],
          WriteTextFile (js ''out/json/one.json'') (js ''One''),
          ConsoleError [js ''Error during backup:'', js ''No space left on device'']]\<rparr>)"
proof -
  let ?rt = no_metadata_runtime
  have rt: "unicode ?rt = plain_unicode" "fetch ?rt = (\<lambda>h. two_item_net)"
    "ensureDir_fault ?rt = (\<lambda>h d. None)" "path_join ?rt = posix_join"
    "writeTextFile_fault ?rt = (\<lambda>h p c. Some (ErrorInstance (js ''No space left on device'')))"
    "JSON_stringify ?rt = title_text"
    by (simp_all add: no_metadata_runtime_def two_item_runtime_fields)
  have "parseRSSFeed ?rt xml = parseRSSFeed two_item_runtime xml" for xml
    by (simp add: parseRSSFeed_def no_metadata_runtime_def)
  then have parsed: "parseRSSFeed ?rt xml
      = Inr [feed_episode ''One'' ''http://h/1.mp3'', feed_episode ''Two'' ''http://h/2.mp3'']" for xml
    by (simp add: two_item_parse)
  show ?thesis
    by (simp add: program_defs io_defs rt two_item_net_answers parsed feed_response_def
        not_found_response_def feed_episode_def sanitize_one example_directories example_files
        js_append [symmetric] empty_world_def
        title_text_def decimal_404 Let_def)
qed




subsection \<open>The handler of the run\<close>

text \<open>
  The handler of \<open>backupPodcast\<close> is the only one around the directories, the feed and
  the loop: whatever exception leaves the body is logged and the function returns.
\<close>

lemma handler_logs:
  "\<forall>e w'. backup_body rt url out w = (Inl e, w') \<longrightarrow>
     backupPodcast rt url out w
       = (Inr (), w'\<lparr>trace := trace w' @ [ConsoleError [js ''Error during backup:'', message_of e]]\<rparr>)"
  by (simp add: backupPodcast_unfold emit_def)

lemma handler_idle:
  "\<forall>w'. backup_body rt url out w = (Inr (), w') \<longrightarrow> backupPodcast rt url out w = (Inr (), w')"
  by (simp add: backupPodcast_unfold)

lemma fatal_directories:
  "\<forall>e w1. make_directories rt out w = (Inl e, w1) \<longrightarrow>
     backupPodcast rt url out w
       = (Inr (), w1\<lparr>trace := trace w1 @ [ConsoleError [js ''Error during backup:'', message_of e]]\<rparr>)
     \<and> files w1 = files w"
  by (auto simp: backupPodcast_unfold backup_body_no_directories emit_def
      dest: make_directories_files)

lemma directories_made:
  "\<forall>dirs w1. make_directories rt out w = (Inr dirs, w1) \<longrightarrow>
     files w1 = files w
     \<and> trace w1 = trace w @ [EnsureDir (audioDir dirs), EnsureDir (imageDir dirs),
                              EnsureDir (jsonDir dirs)]"
proof (intro allI impI)
  fix dirs w1 assume d: "make_directories rt out w = (Inr dirs, w1)"
  from make_directories_Inr [OF d] make_directories_files [OF d]
  show "files w1 = files w
     \<and> trace w1 = trace w @ [EnsureDir (audioDir dirs), EnsureDir (imageDir dirs),
                              EnsureDir (jsonDir dirs)]"
    by simp
qed

lemma fatal_feed:
  "\<forall>dirs w1 e. make_directories rt out w = (Inr dirs, w1)
     \<and> (fetch rt (trace w1) (VStr url) = Inl e
        \<or> (\<exists>r. fetch rt (trace w1) (VStr url) = Inr r \<and> text_of r = Inl e)
        \<or> (\<exists>r xml. fetch rt (trace w1) (VStr url) = Inr r \<and> text_of r = Inr xml
              \<and> parseRSSFeed rt xml = Inl e))
     \<longrightarrow> backupPodcast rt url out w
           = (Inr (), w1\<lparr>trace := trace w1 @ [Fetch (VStr url),
                ConsoleError [js ''Error during backup:'', message_of e]]\<rparr>)"
proof (intro allI impI)
  fix dirs w1 e
  assume h: "make_directories rt out w = (Inr dirs, w1)
     \<and> (fetch rt (trace w1) (VStr url) = Inl e
        \<or> (\<exists>r. fetch rt (trace w1) (VStr url) = Inr r \<and> text_of r = Inl e)
        \<or> (\<exists>r xml. fetch rt (trace w1) (VStr url) = Inr r \<and> text_of r = Inr xml
              \<and> parseRSSFeed rt xml = Inl e))"
  then have dirs: "make_directories rt out w = (Inr dirs, w1)" by simp
  from h
  have "bind_exn (fetch rt (trace w1) (VStr url)) (\<lambda>r. bind_exn (text_of r) (parseRSSFeed rt)) = Inl e"
    by auto
  with dirs show "backupPodcast rt url out w
      = (Inr (), w1\<lparr>trace := trace w1 @ [Fetch (VStr url),
           ConsoleError [js ''Error during backup:'', message_of e]]\<rparr>)"
    by (rule backupPodcast_no_feed)
qed

text \<open>The status of the feed's response is not looked at: a body that parses is a feed.\<close>

lemma feed_of_any_status:
  "\<forall>w1 r xml eps. fetch rt (trace w1) (VStr url) = Inr r \<and> text_of r = Inr xml
       \<and> parseRSSFeed rt xml = Inr eps
     \<longrightarrow> load_episodes rt url w1 = (Inr eps, w1\<lparr>trace := trace w1 @ [Fetch (VStr url)]\<rparr>)"
  by (simp add: load_episodes_unfold emit_def)

lemma loop_exception_logged:
  "\<forall>dirs w1 eps w2 e w3. make_directories rt out w = (Inr dirs, w1)
       \<and> load_episodes rt url w1 = (Inr eps, w2)
       \<and> for_each (process_episode rt dirs) eps w2 = (Inl e, w3)
     \<longrightarrow> backupPodcast rt url out w
           = (Inr (), w3\<lparr>trace := trace w3
                @ [ConsoleError [js ''Error during backup:'', message_of e]]\<rparr>)"
  by (simp add: backupPodcast_unfold backup_body_def io_bind_def emit_def)

lemma loop_completed:
  "\<forall>dirs w1 eps w2 w3. make_directories rt out w = (Inr dirs, w1)
       \<and> load_episodes rt url w1 = (Inr eps, w2)
       \<and> for_each (process_episode rt dirs) eps w2 = (Inr (), w3)
     \<longrightarrow> backupPodcast rt url out w
           = (Inr (), w3\<lparr>trace := trace w3 @ [ConsoleLog (js ''Backup completed successfully!'')]\<rparr>)"
  by (simp add: backupPodcast_unfold backup_body_def io_bind_def console_log_def emit_def)

lemma metadata_fault_logged:
  "\<forall>dirs w1 ep eps w2 t i e. make_directories rt out w = (Inr dirs, w1)
       \<and> load_episodes rt url w1 = (Inr (ep # eps), w2)
       \<and> title ep = VStr t \<and> imageUrl ep = VStr i
       \<and> (\<forall>h c. writeTextFile_fault rt h (json_path rt dirs t) c = Some e)
     \<longrightarrow> (\<exists>w' evs. backupPodcast rt url out w = (Inr (), w')
            \<and> trace w' = trace w2 @ evs
                  @ [WriteTextFile (json_path rt dirs t) (JSON_stringify rt ep),
                     ConsoleError [js ''Error during backup:'', message_of e]])"
proof (intro allI impI)
  fix dirs w1 ep eps w2 t i e
  assume h: "make_directories rt out w = (Inr dirs, w1)
       \<and> load_episodes rt url w1 = (Inr (ep # eps), w2)
       \<and> title ep = VStr t \<and> imageUrl ep = VStr i
       \<and> (\<forall>h c. writeTextFile_fault rt h (json_path rt dirs t) c = Some e)"
  then have d: "make_directories rt out w = (Inr dirs, w1)"
    and l: "load_episodes rt url w1 = (Inr (ep # eps), w2)"
    and t: "title ep = VStr t" and i: "imageUrl ep = VStr i"
    and fault: "\<forall>h c. writeTextFile_fault rt h (json_path rt dirs t) c = Some e"
    by simp_all
  from process_episode_metadata_fault [OF t i fault, of w2]
  obtain w3 evs where p: "process_episode rt dirs ep w2 = (Inl e, w3)"
    and tr: "trace w3 = trace w2 @ evs
        @ [WriteTextFile (json_path rt dirs t) (JSON_stringify rt ep)]"
    by blast
  have loop: "for_each (process_episode rt dirs) (ep # eps) w2 = (Inl e, w3)"
    by (simp add: io_bind_def p)
  let ?w' = "w3\<lparr>trace := trace w3 @ [ConsoleError [js ''Error during backup:'', message_of e]]\<rparr>"
  from d l loop have "backupPodcast rt url out w = (Inr (), ?w')"
    by (simp add: backupPodcast_unfold backup_body_def io_bind_def emit_def)
  moreover have "trace ?w' = trace w2 @ evs
      @ [WriteTextFile (json_path rt dirs t) (JSON_stringify rt ep),
         ConsoleError [js ''Error during backup:'', message_of e]]"
    by (simp add: tr)
  ultimately show "\<exists>w' evs. backupPodcast rt url out w = (Inr (), w')
            \<and> trace w' = trace w2 @ evs
                  @ [WriteTextFile (json_path rt dirs t) (JSON_stringify rt ep),
                     ConsoleError [js ''Error during backup:'', message_of e]]"
    by blast
qed

lemma download_returns: "\<forall>u p w0. \<exists>r w'. downloadFile rt u p w0 = (Inr r, w')"
  by (simp add: downloadFile_unfold split: sum.splits option.splits)

text \<open>
  Claim C9. For every environment, feed URL, output directory and world,
  \<open>backupPodcast\<close> returns normally. Whatever exception leaves the body is caught by
  the one handler, which logs the line \<open>Error during backup:\<close> with the message of the
  exception and does nothing else; a body that ends normally logs no such line.
  \<^item> When a directory cannot be made, when \<open>fetch\<close> of the feed rejects, when the body of
    the response cannot be read, or when \<open>parseRSSFeed\<close> throws, the run ends there:
    no file is written and no episode is processed (the calls made are those of the
    directories and the \<open>fetch\<close> of the feed, nothing else).
  \<^item> The status of the feed's response is not looked at: a response that is not OK and
    whose body parses is a feed like any other.
  \<^item> An exception that leaves the loop (of \<open>Deno.writeTextFile\<close>, of \<open>sanitizeFilename\<close>
    on a title that is no string, of a template literal) ends the run with the error
    line, and a loop that ends normally is followed by the completion line. Where the
    metadata of the first episode cannot be written, the refused write is the last
    call before the error line.
  \<^item> A download never throws: its failure is a result value.
\<close>

theorem backupPodcast_never_raises:
  "(\<exists>w'. backupPodcast rt url out w = (Inr (), w'))
   \<and> (\<forall>e w'. backup_body rt url out w = (Inl e, w') \<longrightarrow>
       backupPodcast rt url out w
         = (Inr (), w'\<lparr>trace := trace w' @ [ConsoleError [js ''Error during backup:'', message_of e]]\<rparr>))
   \<and> (\<forall>w'. backup_body rt url out w = (Inr (), w') \<longrightarrow> backupPodcast rt url out w = (Inr (), w'))
   \<and> (\<forall>e w1. make_directories rt out w = (Inl e, w1) \<longrightarrow>
       backupPodcast rt url out w
         = (Inr (), w1\<lparr>trace := trace w1 @ [ConsoleError [js ''Error during backup:'', message_of e]]\<rparr>)
       \<and> files w1 = files w)
   \<and> (\<forall>dirs w1. make_directories rt out w = (Inr dirs, w1) \<longrightarrow>
       files w1 = files w
       \<and> trace w1 = trace w @ [EnsureDir (audioDir dirs), EnsureDir (imageDir dirs),
                                EnsureDir (jsonDir dirs)])
   \<and> (\<forall>dirs w1 e. make_directories rt out w = (Inr dirs, w1)
       \<and> (fetch rt (trace w1) (VStr url) = Inl e
          \<or> (\<exists>r. fetch rt (trace w1) (VStr url) = Inr r \<and> text_of r = Inl e)
          \<or> (\<exists>r xml. fetch rt (trace w1) (VStr url) = Inr r \<and> text_of r = Inr xml
                \<and> parseRSSFeed rt xml = Inl e))
       \<longrightarrow> backupPodcast rt url out w
             = (Inr (), w1\<lparr>trace := trace w1 @ [Fetch (VStr url),
                  ConsoleError [js ''Error during backup:'', message_of e]]\<rparr>))
   \<and> (\<forall>w1 r xml eps. fetch rt (trace w1) (VStr url) = Inr r \<and> text_of r = Inr xml
         \<and> parseRSSFeed rt xml = Inr eps
       \<longrightarrow> load_episodes rt url w1 = (Inr eps, w1\<lparr>trace := trace w1 @ [Fetch (VStr url)]\<rparr>))
   \<and> (\<forall>dirs w1 eps w2 e w3. make_directories rt out w = (Inr dirs, w1)
         \<and> load_episodes rt url w1 = (Inr eps, w2)
         \<and> for_each (process_episode rt dirs) eps w2 = (Inl e, w3)
       \<longrightarrow> backupPodcast rt url out w
             = (Inr (), w3\<lparr>trace := trace w3
                  @ [ConsoleError [js ''Error during backup:'', message_of e]]\<rparr>))
   \<and> (\<forall>dirs w1 eps w2 w3. make_directories rt out w = (Inr dirs, w1)
         \<and> load_episodes rt url w1 = (Inr eps, w2)
         \<and> for_each (process_episode rt dirs) eps w2 = (Inr (), w3)
       \<longrightarrow> backupPodcast rt url out w
             = (Inr (), w3\<lparr>trace := trace w3 @ [ConsoleLog (js ''Backup completed successfully!'')]\<rparr>))
   \<and> (\<forall>dirs w1 ep eps w2 t i e. make_directories rt out w = (Inr dirs, w1)
         \<and> load_episodes rt url w1 = (Inr (ep # eps), w2)
         \<and> title ep = VStr t \<and> imageUrl ep = VStr i
         \<and> (\<forall>h c. writeTextFile_fault rt h (json_path rt dirs t) c = Some e)
       \<longrightarrow> (\<exists>w' evs. backupPodcast rt url out w = (Inr (), w')
              \<and> trace w' = trace w2 @ evs
                    @ [WriteTextFile (json_path rt dirs t) (JSON_stringify rt ep),
                       ConsoleError [js ''Error during backup:'', message_of e]]))
   \<and> (\<forall>u p w0. \<exists>r w'. downloadFile rt u p w0 = (Inr r, w'))"
  using backupPodcast_returns [of rt url out w] handler_logs [of rt url out w]
    handler_idle [of rt url out w] fatal_directories [of rt out w url]
    directories_made [of rt out w] fatal_feed [of rt out w url] feed_of_any_status [of rt url]
    loop_exception_logged [of rt out w url] loop_completed [of rt out w url]
    metadata_fault_logged [of rt out w url] download_returns [of rt]
  by (intro conjI)

text \<open>
  The failures on concrete environments: no directory, a rejected \<open>fetch\<close>, a body that
  cannot be read, a document that is no XML, a refused write of metadata in the loop;
  and a feed that is served with the status 404.
\<close>

theorem backupPodcast_never_raises_witness:
  "backupPodcast no_directories_runtime (js ''http://h/feed'') (js ''out'') empty_world
     = (Inr (), \<lparr>files = Map.empty,
                 trace = [EnsureDir (js ''out/audio''),
                          ConsoleError [js ''Error during backup:'', js ''Permission denied'']]\<rparr>)
   \<and> backupPodcast
        (static_runtime (\<lambda>url. Inl (ErrorInstance (js ''dns failure''))) (\<lambda>xml. Inr VUndefined))
        (js ''http://h/feed'') (js ''out'') empty_world
     = (Inr (), \<lparr>files = Map.empty,
                 trace = [EnsureDir (js ''out/audio''), EnsureDir (js ''out/images''),
                          EnsureDir (js ''out/json''), Fetch (VStr (js ''http://h/feed'')),
                          ConsoleError [js ''Error during backup:'', js ''dns failure'']]\<rparr>)
   \<and> backupPodcast
        (static_runtime (\<lambda>url. Inr (feed_response\<lparr>text_of := Inl (OtherThrown (js ''reset''))\<rparr>))
           (\<lambda>xml. Inr VUndefined))
        (js ''http://h/feed'') (js ''out'') empty_world
     = (Inr (), \<lparr>files = Map.empty,
                 trace = [EnsureDir (js ''out/audio''), EnsureDir (js ''out/images''),
                          EnsureDir (js ''out/json''), Fetch (VStr (js ''http://h/feed'')),
                          ConsoleError [js ''Error during backup:'', js ''reset'']]\<rparr>)
   \<and> backupPodcast
        (static_runtime (\<lambda>url. Inr feed_response) (\<lambda>xml. Inl (ErrorInstance (js ''syntax error''))))
        (js ''http://h/feed'') (js ''out'') empty_world
     = (Inr (), \<lparr>files = Map.empty,
                 trace = [EnsureDir (js ''out/audio''), EnsureDir (js ''out/images''),
                          EnsureDir (js ''out/json''), Fetch (VStr (js ''http://h/feed'')),
                          ConsoleError [js ''Error during backup:'', js ''syntax error'']]\<rparr>)
   \<and> (\<exists>w' evs.
         backupPodcast no_metadata_runtime (js ''http://h/feed'') (js ''out'') empty_world = (Inr (), w')
         \<and> trace w' = [EnsureDir (js ''out/audio''), EnsureDir (js ''out/images''),
                        EnsureDir (js ''out/json''), Fetch (VStr (js ''http://h/feed''))]
                       @ evs
                       @ [WriteTextFile (js ''out/json/one.json'') (js ''One''),
                          ConsoleError [js ''Error during backup:'', js ''No space left on device'']])
   \<and> \<not> ok not_found_response
   \<and> load_episodes (static_runtime (\<lambda>url. Inr not_found_response) (\<lambda>xml. Inr (feed_doc two_items)))
        (js ''http://h/feed'')
        \<lparr>files = Map.empty,
         trace = [EnsureDir (js ''out/audio''), EnsureDir (js ''out/images''),
                  EnsureDir (js ''out/json'')]\<rparr>
     = (Inr [feed_episode ''One'' ''http://h/1.mp3'', feed_episode ''Two'' ''http://h/2.mp3''],
        \<lparr>files = Map.empty,
         trace = [EnsureDir (js ''out/audio''), EnsureDir (js ''out/images''),
                  EnsureDir (js ''out/json''), Fetch (VStr (js ''http://h/feed''))]\<rparr>)"
proof (intro conjI)
  from backupPodcast_never_raises
    [of no_directories_runtime "js ''http://h/feed''" "js ''out''" empty_world]
  show "backupPodcast no_directories_runtime (js ''http://h/feed'') (js ''out'') empty_world
     = (Inr (), \<lparr>files = Map.empty,
                 trace = [EnsureDir (js ''out/audio''),
                          ConsoleError [js ''Error during backup:'', js ''Permission denied'']]\<rparr>)"
    unfolding no_directories by simp
next
  let ?rt = "static_runtime (\<lambda>url. Inl (ErrorInstance (js ''dns failure''))) (\<lambda>xml. Inr VUndefined)"
  have fetch: "fetch ?rt h u = Inl (ErrorInstance (js ''dns failure''))" for h u
    by (simp add: static_runtime_def)
  from backupPodcast_never_raises [of ?rt "js ''http://h/feed''" "js ''out''" empty_world]
  show "backupPodcast ?rt (js ''http://h/feed'') (js ''out'') empty_world
     = (Inr (), \<lparr>files = Map.empty,
                 trace = [EnsureDir (js ''out/audio''), EnsureDir (js ''out/images''),
                          EnsureDir (js ''out/json''), Fetch (VStr (js ''http://h/feed'')),
                          ConsoleError [js ''Error during backup:'', js ''dns failure'']]\<rparr>)"
    unfolding static_directories by (simp add: fetch out_directories_def)
next
  let ?r = "feed_response\<lparr>text_of := Inl (OtherThrown (js ''reset''))\<rparr>"
  let ?rt = "static_runtime (\<lambda>url. Inr ?r) (\<lambda>xml. Inr VUndefined)"
  have fetch: "fetch ?rt h u = Inr ?r" for h u
    by (simp add: static_runtime_def)
  have body: "text_of ?r = Inl (OtherThrown (js ''reset''))"
    by simp
  from backupPodcast_never_raises [of ?rt "js ''http://h/feed''" "js ''out''" empty_world]
  show "backupPodcast ?rt (js ''http://h/feed'') (js ''out'') empty_world
     = (Inr (), \<lparr>files = Map.empty,
                 trace = [EnsureDir (js ''out/audio''), EnsureDir (js ''out/images''),
                          EnsureDir (js ''out/json''), Fetch (VStr (js ''http://h/feed'')),
                          ConsoleError [js ''Error during backup:'', js ''reset'']]\<rparr>)"
    unfolding static_directories by (simp add: fetch body out_directories_def)
next
  let ?rt = "static_runtime (\<lambda>url. Inr feed_response) (\<lambda>xml. Inl (ErrorInstance (js ''syntax error'')))"
  have fetch: "fetch ?rt h u = Inr feed_response" for h u
    by (simp add: static_runtime_def)
  have body: "text_of feed_response = Inr (js ''<rss/>'')"
    by (simp add: feed_response_def)
  have parse: "parseRSSFeed ?rt xml = Inl (ErrorInstance (js ''syntax error''))" for xml
    by (simp add: parseRSSFeed_def static_runtime_def)
  from backupPodcast_never_raises [of ?rt "js ''http://h/feed''" "js ''out''" empty_world]
  show "backupPodcast ?rt (js ''http://h/feed'') (js ''out'') empty_world
     = (Inr (), \<lparr>files = Map.empty,
                 trace = [EnsureDir (js ''out/audio''), EnsureDir (js ''out/images''),
                          EnsureDir (js ''out/json''), Fetch (VStr (js ''http://h/feed'')),
                          ConsoleError [js ''Error during backup:'', js ''syntax error'']]\<rparr>)"
    unfolding static_directories by (simp add: fetch body parse out_directories_def)
next
  let ?rt = no_metadata_runtime
  let ?ep1 = "feed_episode ''One'' ''http://h/1.mp3''" and ?ep2 = "feed_episode ''Two'' ''http://h/2.mp3''"
  let ?w1 = "\<lparr>files = Map.empty,
              trace = [EnsureDir (js ''out/audio''), EnsureDir (js ''out/images''),
                       EnsureDir (js ''out/json'')]\<rparr>"
  let ?w2 = "\<lparr>files = Map.empty,
              trace = [EnsureDir (js ''out/audio''), EnsureDir (js ''out/images''),
                       EnsureDir (js ''out/json''), Fetch (VStr (js ''http://h/feed''))]\<rparr>"
  let ?e = "ErrorInstance (js ''No space left on device'')"
  have rt: "unicode ?rt = plain_unicode" "fetch ?rt = (\<lambda>h. two_item_net)"
    "ensureDir_fault ?rt = (\<lambda>h d. None)" "path_join ?rt = posix_join"
    "writeTextFile_fault ?rt = (\<lambda>h p c. Some ?e)"
    by (simp_all add: no_metadata_runtime_def two_item_runtime_fields)
  have d: "make_directories ?rt (js ''out'') empty_world = (Inr out_directories, ?w1)"
    by (simp add: make_directories_unfold directories_of_def out_directories_def rt
        example_directories empty_world_def)
  have "parseRSSFeed ?rt xml = parseRSSFeed two_item_runtime xml" for xml
    by (simp add: parseRSSFeed_def no_metadata_runtime_def)
  then have l: "load_episodes ?rt (js ''http://h/feed'') ?w1 = (Inr (?ep1 # [?ep2]), ?w2)"
    by (simp add: load_episodes_unfold rt two_item_net_answers feed_response_def two_item_parse
        emit_def)
  have t: "title ?ep1 = VStr (js ''One'')" and i: "imageUrl ?ep1 = VStr []"
    by (simp_all add: feed_episode_def)
  have fault: "\<forall>h c. writeTextFile_fault ?rt h (json_path ?rt out_directories (js ''One'')) c = Some ?e"
    by (simp add: rt)
  have path: "json_path ?rt out_directories (js ''One'') = js ''out/json/one.json''"
    by (simp add: json_path_def out_directories_def rt sanitize_one example_files
        js_append [symmetric])
  have content: "JSON_stringify ?rt ?ep1 = js ''One''"
    by (simp add: no_metadata_runtime_def two_item_runtime_fields title_text_def feed_episode_def)
  from d l t i fault
  have "make_directories ?rt (js ''out'') empty_world = (Inr out_directories, ?w1)
      \<and> load_episodes ?rt (js ''http://h/feed'') ?w1 = (Inr (?ep1 # [?ep2]), ?w2)
      \<and> title ?ep1 = VStr (js ''One'') \<and> imageUrl ?ep1 = VStr []
      \<and> (\<forall>h c. writeTextFile_fault ?rt h (json_path ?rt out_directories (js ''One'')) c = Some ?e)"
    by (intro conjI)
  from backupPodcast_never_raises
    [of ?rt "js ''http://h/feed''" "js ''out''" empty_world,
     THEN conjunct2, THEN conjunct2, THEN conjunct2, THEN conjunct2, THEN conjunct2,
     THEN conjunct2, THEN conjunct2, THEN conjunct2, THEN conjunct2, THEN conjunct1,
     rule_format, OF this]
  show "\<exists>w' evs.
         backupPodcast ?rt (js ''http://h/feed'') (js ''out'') empty_world = (Inr (), w')
         \<and> trace w' = [EnsureDir (js ''out/audio''), EnsureDir (js ''out/images''),
                        EnsureDir (js ''out/json''), Fetch (VStr (js ''http://h/feed''))]
                       @ evs
                       @ [WriteTextFile (js ''out/json/one.json'') (js ''One''),
                          ConsoleError [js ''Error during backup:'', js ''No space left on device'']]"
    by (simp add: path content)
next
  show "\<not> ok not_found_response"
    by (simp add: not_found_response_def)
next
  let ?rt = "static_runtime (\<lambda>url. Inr not_found_response) (\<lambda>xml. Inr (feed_doc two_items))"
  let ?w1 = "\<lparr>files = Map.empty,
              trace = [EnsureDir (js ''out/audio''), EnsureDir (js ''out/images''),
                       EnsureDir (js ''out/json'')]\<rparr>"
  have fetch: "fetch ?rt h u = Inr not_found_response" for h u
    by (simp add: static_runtime_def)
  have body: "text_of not_found_response = Inr []"
    by (simp add: not_found_response_def)
  have "parseRSSFeed ?rt xml = parseRSSFeed two_item_runtime xml" for xml
    by (simp add: parseRSSFeed_def static_runtime_def two_item_runtime_def feed_runtime_def)
  then have parse: "parseRSSFeed ?rt []
      = Inr [feed_episode ''One'' ''http://h/1.mp3'', feed_episode ''Two'' ''http://h/2.mp3'']"
    by (simp add: two_item_parse)
  from fetch [of "trace ?w1" "VStr (js ''http://h/feed'')"] body parse
  have "fetch ?rt (trace ?w1) (VStr (js ''http://h/feed'')) = Inr not_found_response
      \<and> text_of not_found_response = Inr []
      \<and> parseRSSFeed ?rt []
        = Inr [feed_episode ''One'' ''http://h/1.mp3'', feed_episode ''Two'' ''http://h/2.mp3'']"
    by (intro conjI)
  from backupPodcast_never_raises
    [of ?rt "js ''http://h/feed''" "js ''out''" empty_world,
     THEN conjunct2, THEN conjunct2, THEN conjunct2, THEN conjunct2, THEN conjunct2,
     THEN conjunct2, THEN conjunct1, rule_format, OF this]
  show "load_episodes ?rt (js ''http://h/feed'') ?w1
     = (Inr [feed_episode ''One'' ''http://h/1.mp3'', feed_episode ''Two'' ''http://h/2.mp3''],
        \<lparr>files = Map.empty,
         trace = [EnsureDir (js ''out/audio''), EnsureDir (js ''out/images''),
                  EnsureDir (js ''out/json''), Fetch (VStr (js ''http://h/feed''))]\<rparr>)"
    by simp
qed

subsection \<open>The run of two items\<close>

text \<open>
  Claim C1, as stated, fails where the metadata cannot be written. In this run the
  feed has two items, the network answers by the URL alone, the audio of the first
  item answers 404 and the audio of the second is served, as the claim supposes; the
  file system refuses the metadata of the first episode, the exception leaves the
  loop, and the run ends with no metadata file for either episode, no audio file for
  the second, and the second episode never processed (no progress line, no \<open>fetch\<close> of
  its audio).
\<close>

theorem two_item_run_metadata_fault_counterexample:
  "parseRSSFeed no_metadata_runtime (js ''<rss/>'')
     = Inr [feed_episode ''One'' ''http://h/1.mp3'', feed_episode ''Two'' ''http://h/2.mp3'']
   \<and> fetch no_metadata_runtime = (\<lambda>history. two_item_net)
   \<and> two_item_net (VStr (js ''http://h/1.mp3'')) = Inr not_found_response
   \<and> \<not> ok not_found_response \<and> status not_found_response = 404
   \<and> two_item_net (VStr (js ''http://h/2.mp3'')) = Inr (ok_response [1, 2, 3])
   \<and> ok (ok_response [1, 2, 3]) \<and> arrayBuffer (ok_response [1, 2, 3]) = Inr [1, 2, 3]
   \<and> files (snd (backupPodcast no_metadata_runtime (js ''http://h/feed'') (js ''out'') empty_world))
        (js ''out/json/one.json'') = None
   \<and> files (snd (backupPodcast no_metadata_runtime (js ''http://h/feed'') (js ''out'') empty_world))
        (js ''out/json/two.json'') = None
   \<and> files (snd (backupPodcast no_metadata_runtime (js ''http://h/feed'') (js ''out'') empty_world))
        (js ''out/audio/two.mp3'') = None
   \<and> ConsoleLog (js ''Processing episode: Two'')
        \<notin> set (trace (snd (backupPodcast no_metadata_runtime (js ''http://h/feed'') (js ''out'')
                               empty_world)))
   \<and> Fetch (VStr (js ''http://h/2.mp3''))
        \<notin> set (trace (snd (backupPodcast no_metadata_runtime (js ''http://h/feed'') (js ''out'')
                               empty_world)))"
proof -
  have "parseRSSFeed no_metadata_runtime xml = parseRSSFeed two_item_runtime xml" for xml
    by (simp add: parseRSSFeed_def no_metadata_runtime_def)
  then have parsed: "parseRSSFeed no_metadata_runtime (js ''<rss/>'')
      = Inr [feed_episode ''One'' ''http://h/1.mp3'', feed_episode ''Two'' ''http://h/2.mp3'']"
    by (simp add: two_item_parse)
  have net: "fetch no_metadata_runtime = (\<lambda>h. two_item_net)"
    by (simp add: no_metadata_runtime_def two_item_runtime_fields)
  have answers: "\<not> ok not_found_response" "status not_found_response = 404"
    "ok (ok_response [1, 2, 3])" "arrayBuffer (ok_response [1, 2, 3]) = Inr [1, 2, 3]"
    by (simp_all add: not_found_response_def ok_response_def)
  show ?thesis
    unfolding no_metadata_run
    by (simp add: parsed net two_item_net_answers answers)
qed

text \<open>
  Claim C1, amended. Let the directories be made; let the feed parse to two episodes
  with strings as titles, image URLs and non-empty audio URLs; let every \<open>fetch\<close> of the
  first audio URL answer 404 and every \<open>fetch\<close> of the second resolve to an OK response
  with the body \<open>B\<close>; let no write of metadata and no write of the second audio file
  fail; and let the paths of the two audio files and the two metadata files be distinct
  and differ from the paths of the images. Then the run returns normally and its calls
  are, in this order: the directories and the feed; for the first episode the progress
  line, the \<open>fetch\<close> of its audio, the two lines that report the failure with its 404,
  the events of its image (none when it has no image URL), the write of its metadata
  and the line that reports it; then the same for the second episode, whose audio is
  written; and the completion line at the end. At the end the metadata of both
  episodes is in its file, the second audio file holds \<open>B\<close>, and what was at the path of
  the first audio file before the run, if anything, is unchanged.
\<close>

theorem two_item_run:
  assumes dirs: "dirs = directories_of rt out"
    and no_dir_fault: "\<forall>h d. ensureDir_fault rt h d = None"
    and feed: "\<forall>h. fetch rt h (VStr rssUrl) = Inr feed" "text_of feed = Inr xml"
      "parseRSSFeed rt xml = Inr [ep1, ep2]"
    and ep1: "title ep1 = VStr t1" "imageUrl ep1 = VStr i1" "audioUrl ep1 = VStr u1" "u1 \<noteq> []"
    and ep2: "title ep2 = VStr t2" "imageUrl ep2 = VStr i2" "audioUrl ep2 = VStr u2" "u2 \<noteq> []"
    and audio1: "\<forall>h. fetch rt h (VStr u1) = Inr r1" "\<not> ok r1" "status r1 = 404"
    and audio2: "\<forall>h. fetch rt h (VStr u2) = Inr r2" "ok r2" "arrayBuffer r2 = Inr B"
    and writes: "\<forall>h d. writeFile_fault rt h (audio_path rt dirs t2) d = None"
      "\<forall>h p c. writeTextFile_fault rt h p c = None"
    and paths: "distinct [audio_path rt dirs t1, audio_path rt dirs t2,
                          json_path rt dirs t1, json_path rt dirs t2]"
      "{image_path rt dirs t1 i1, image_path rt dirs t2 i2}
         \<inter> {audio_path rt dirs t1, audio_path rt dirs t2,
              json_path rt dirs t1, json_path rt dirs t2} = {}"
  shows "\<exists>w' image1 image2. backupPodcast rt rssUrl out w = (Inr (), w')
      \<and> trace w' = trace w
          @ [EnsureDir (audioDir dirs), EnsureDir (imageDir dirs), EnsureDir (jsonDir dirs),
             Fetch (VStr rssUrl),
             ConsoleLog (js ''Processing episode: '' @ t1),
             Fetch (VStr u1),
             ConsoleLog (js ''Audio download failed: '' @ t1),
             ConsoleError [js ''Error downloading audio: Failed to download: 404 '' @ statusText r1]]
          @ image1
          @ [WriteTextFile (json_path rt dirs t1) (JSON_stringify rt ep1),
             ConsoleLog (js ''JSON metadata saved: '' @ t1),
             ConsoleLog (js ''Processing episode: '' @ t2),
             Fetch (VStr u2),
             WriteFile (audio_path rt dirs t2) B,
             ConsoleLog (js ''Audio download successful: '' @ t2)]
          @ image2
          @ [WriteTextFile (json_path rt dirs t2) (JSON_stringify rt ep2),
             ConsoleLog (js ''JSON metadata saved: '' @ t2),
             ConsoleLog (js ''Backup completed successfully!'')]
      \<and> (i1 = [] \<longrightarrow> image1 = []) \<and> (i2 = [] \<longrightarrow> image2 = [])
      \<and> files w' (json_path rt dirs t1) = Some (Text (JSON_stringify rt ep1))
      \<and> files w' (json_path rt dirs t2) = Some (Text (JSON_stringify rt ep2))
      \<and> files w' (audio_path rt dirs t2) = Some (Bytes B)
      \<and> files w' (audio_path rt dirs t1) = files w (audio_path rt dirs t1)"
proof -
  let ?a1 = "audio_path rt dirs t1" and ?a2 = "audio_path rt dirs t2"
  let ?j1 = "json_path rt dirs t1" and ?j2 = "json_path rt dirs t2"
  let ?m1 = "image_path rt dirs t1 i1" and ?m2 = "image_path rt dirs t2 i2"
  let ?b1 = "sanitizeFilename (unicode rt) t1" and ?b2 = "sanitizeFilename (unicode rt) t2"
  \<comment> \<open>the directories and the feed\<close>
  let ?w1 = "w\<lparr>trace := trace w @ [EnsureDir (audioDir dirs), EnsureDir (imageDir dirs),
                                      EnsureDir (jsonDir dirs)]\<rparr>"
  have d: "make_directories rt out w = (Inr dirs, ?w1)"
    using make_directories_ok [OF no_dir_fault, of out w] dirs by simp
  let ?w2 = "emit (Fetch (VStr rssUrl)) ?w1"
  have l: "load_episodes rt rssUrl ?w1 = (Inr [ep1, ep2], ?w2)"
    by (simp add: load_episodes_unfold feed)
  have f2: "files ?w2 = files w" by (simp add: emit_def)
  \<comment> \<open>episode 1: the audio answers 404\<close>
  let ?w3 = "?w2\<lparr>trace := trace ?w2 @ [ConsoleLog (js ''Processing episode: '' @ t1)]\<rparr>"
  let ?err = "ConsoleError [js ''Error downloading audio: '' @ failed_to_download r1]"
  let ?w4 = "?w3\<lparr>trace := trace ?w3 @ [Fetch (VStr u1),
      ConsoleLog (js ''Audio download failed: '' @ t1), ?err]\<rparr>"
  have a1: "audio_step rt dirs ep1 ?b1 ?w3 = (Inr (), ?w4)"
    by (simp add: audio_step_unfold [OF ep1(1)] ep1 downloadFile_unfold audio1 emit_def
        outcome_word_def error_text_def js_append [symmetric])
  from image_step_effect [OF ep1(1,2), of rt dirs ?b1 ?w4]
  obtain w5 evs5 where m1: "image_step rt dirs ep1 ?b1 ?w4 = (Inr (), w5)"
    and t5: "trace w5 = trace ?w4 @ evs5"
    and f5: "files w5 = files ?w4 \<or> (\<exists>fileData. files w5 = (files ?w4)(?m1 \<mapsto> Bytes fileData))"
    unfolding image_path_def by blast
  have none5: "i1 = [] \<longrightarrow> evs5 = []"
    using m1 t5 by (auto simp: image_step_unfold [OF ep1(1,2)])
  let ?w6 = "w5\<lparr>files := (files w5)(?j1 \<mapsto> Text (JSON_stringify rt ep1)),
      trace := trace w5 @ [WriteTextFile ?j1 (JSON_stringify rt ep1),
                           ConsoleLog (js ''JSON metadata saved: '' @ t1)]\<rparr>"
  have j1: "json_step rt dirs ep1 ?b1 w5 = (Inr (), ?w6)"
    by (simp add: json_step_unfold [OF ep1(1)] writes Let_def json_path_def)
  have p1: "process_episode rt dirs ep1 ?w2 = (Inr (), ?w6)"
    using a1 m1 j1 by (simp add: process_episode_unfold [OF ep1(1)] Let_def)
  \<comment> \<open>episode 2: the audio is downloaded\<close>
  let ?w7 = "?w6\<lparr>trace := trace ?w6 @ [ConsoleLog (js ''Processing episode: '' @ t2)]\<rparr>"
  let ?w8 = "?w7\<lparr>files := (files ?w7)(?a2 \<mapsto> Bytes B),
      trace := trace ?w7 @ [Fetch (VStr u2), WriteFile ?a2 B,
                            ConsoleLog (js ''Audio download successful: '' @ t2)]\<rparr>"
  have a2: "audio_step rt dirs ep2 ?b2 ?w7 = (Inr (), ?w8)"
    using writes(1)
    by (simp add: audio_step_unfold [OF ep2(1)] ep2 downloadFile_unfold audio2 emit_def
        outcome_word_def audio_path_def js_append [symmetric])
  from image_step_effect [OF ep2(1,2), of rt dirs ?b2 ?w8]
  obtain w9 evs9 where m2: "image_step rt dirs ep2 ?b2 ?w8 = (Inr (), w9)"
    and t9: "trace w9 = trace ?w8 @ evs9"
    and f9: "files w9 = files ?w8 \<or> (\<exists>fileData. files w9 = (files ?w8)(?m2 \<mapsto> Bytes fileData))"
    unfolding image_path_def by blast
  have none9: "i2 = [] \<longrightarrow> evs9 = []"
    using m2 t9 by (auto simp: image_step_unfold [OF ep2(1,2)])
  let ?w10 = "w9\<lparr>files := (files w9)(?j2 \<mapsto> Text (JSON_stringify rt ep2)),
      trace := trace w9 @ [WriteTextFile ?j2 (JSON_stringify rt ep2),
                           ConsoleLog (js ''JSON metadata saved: '' @ t2)]\<rparr>"
  have j2: "json_step rt dirs ep2 ?b2 w9 = (Inr (), ?w10)"
    by (simp add: json_step_unfold [OF ep2(1)] writes Let_def json_path_def)
  have p2: "process_episode rt dirs ep2 ?w6 = (Inr (), ?w10)"
    using a2 m2 j2 by (simp add: process_episode_unfold [OF ep2(1)] Let_def)
  \<comment> \<open>the whole run\<close>
  let ?w' = "?w10\<lparr>trace := trace ?w10 @ [ConsoleLog (js ''Backup completed successfully!'')]\<rparr>"
  have "backup_body rt rssUrl out w = (Inr (), ?w')"
    using d l p1 p2 by (simp add: backup_body_def io_bind_def console_log_def emit_def io_return_def)
  then have run: "backupPodcast rt rssUrl out w = (Inr (), ?w')"
    by (simp add: backupPodcast_unfold)
  \<comment> \<open>the files\<close>
  have ne: "?a1 \<noteq> ?a2" "?a1 \<noteq> ?j1" "?a1 \<noteq> ?j2" "?a2 \<noteq> ?j1" "?a2 \<noteq> ?j2" "?j1 \<noteq> ?j2"
    "?m1 \<noteq> ?a1" "?m1 \<noteq> ?a2" "?m1 \<noteq> ?j1" "?m1 \<noteq> ?j2"
    "?m2 \<noteq> ?a1" "?m2 \<noteq> ?a2" "?m2 \<noteq> ?j1" "?m2 \<noteq> ?j2"
    using paths by auto
  have f4: "files ?w4 = files w" by (simp add: f2)
  have f5a: "files w5 ?a1 = files w ?a1"
    using f5 f4 ne by auto
  have f9a: "files w9 ?a1 = files w ?a1" "files w9 ?a2 = Some (Bytes B)"
    "files w9 ?j1 = Some (Text (JSON_stringify rt ep1))"
    using f9 f5a ne by auto
  have files: "files ?w' ?j1 = Some (Text (JSON_stringify rt ep1))"
    "files ?w' ?j2 = Some (Text (JSON_stringify rt ep2))"
    "files ?w' ?a2 = Some (Bytes B)" "files ?w' ?a1 = files w ?a1"
    using f9a ne by simp_all
  \<comment> \<open>the calls\<close>
  have msg: "js ''Error downloading audio: '' @ failed_to_download r1
      = js ''Error downloading audio: Failed to download: 404 '' @ statusText r1"
    by (simp add: failed_to_download_def audio1 decimal_404 js_def)
  have calls: "trace ?w' = trace w
          @ [EnsureDir (audioDir dirs), EnsureDir (imageDir dirs), EnsureDir (jsonDir dirs),
             Fetch (VStr rssUrl),
             ConsoleLog (js ''Processing episode: '' @ t1),
             Fetch (VStr u1),
             ConsoleLog (js ''Audio download failed: '' @ t1),
             ConsoleError [js ''Error downloading audio: Failed to download: 404 '' @ statusText r1]]
          @ evs5
          @ [WriteTextFile ?j1 (JSON_stringify rt ep1),
             ConsoleLog (js ''JSON metadata saved: '' @ t1),
             ConsoleLog (js ''Processing episode: '' @ t2),
             Fetch (VStr u2),
             WriteFile ?a2 B,
             ConsoleLog (js ''Audio download successful: '' @ t2)]
          @ evs9
          @ [WriteTextFile ?j2 (JSON_stringify rt ep2),
             ConsoleLog (js ''JSON metadata saved: '' @ t2),
             ConsoleLog (js ''Backup completed successfully!'')]"
    by (simp add: t9 t5 emit_def msg)
  from run calls none5 none9 files show ?thesis
    by blast
qed

text \<open>
  The feed of two items on the network that answers 404 for \<open>http://h/1.mp3\<close> and the
  bytes \<open>[1, 2, 3]\<close> for \<open>http://h/2.mp3\<close>, run in an empty world: the whole run, call by
  call.
\<close>

theorem two_item_run_witness:
  "\<exists>w'. backupPodcast two_item_runtime (js ''http://h/feed'') (js ''out'') empty_world = (Inr (), w')
      \<and> trace w'
          = [EnsureDir (js ''out/audio''), EnsureDir (js ''out/images''), EnsureDir (js ''out/json''),
             Fetch (VStr (js ''http://h/feed'')),
             ConsoleLog (js ''Processing episode: One''),
             Fetch (VStr (js ''http://h/1.mp3'')),
             ConsoleLog (js ''Audio download failed: One''),
             ConsoleError [js ''Error downloading audio: Failed to download: 404 Not Found''],
             WriteTextFile (js ''out/json/one.json'') (js ''One''),
             ConsoleLog (js ''JSON metadata saved: One''),
             ConsoleLog (js ''Processing episode: Two''),
             Fetch (VStr (js ''http://h/2.mp3'')),
             WriteFile (js ''out/audio/two.mp3'') [1, 2, 3],
             ConsoleLog (js ''Audio download successful: Two''),
             WriteTextFile (js ''out/json/two.json'') (js ''Two''),
             ConsoleLog (js ''JSON metadata saved: Two''),
             ConsoleLog (js ''Backup completed successfully!'')]
      \<and> files w' (js ''out/json/one.json'') = Some (Text (js ''One''))
      \<and> files w' (js ''out/json/two.json'') = Some (Text (js ''Two''))
      \<and> files w' (js ''out/audio/two.mp3'') = Some (Bytes [1, 2, 3])
      \<and> files w' (js ''out/audio/one.mp3'') = None"
proof -
  let ?rt = two_item_runtime
  let ?ep1 = "feed_episode ''One'' ''http://h/1.mp3''" and ?ep2 = "feed_episode ''Two'' ''http://h/2.mp3''"
  have dirs: "out_directories = directories_of ?rt (js ''out'')"
    by (simp add: directories_of_def out_directories_def two_item_runtime_fields example_directories
        js_append [symmetric])
  have no_dir_fault: "\<forall>h d. ensureDir_fault ?rt h d = None"
    by (simp add: two_item_runtime_fields)
  have feed: "\<forall>h. fetch ?rt h (VStr (js ''http://h/feed'')) = Inr feed_response"
    "text_of feed_response = Inr (js ''<rss/>'')"
    by (simp_all add: two_item_runtime_fields two_item_net_answers feed_response_def)
  have parsed: "parseRSSFeed ?rt (js ''<rss/>'') = Inr [?ep1, ?ep2]"
    by (rule two_item_parse)
  have ep1: "title ?ep1 = VStr (js ''One'')" "imageUrl ?ep1 = VStr []"
    "audioUrl ?ep1 = VStr (js ''http://h/1.mp3'')" "js ''http://h/1.mp3'' \<noteq> []"
    by (simp_all add: feed_episode_def)
  have ep2: "title ?ep2 = VStr (js ''Two'')" "imageUrl ?ep2 = VStr []"
    "audioUrl ?ep2 = VStr (js ''http://h/2.mp3'')" "js ''http://h/2.mp3'' \<noteq> []"
    by (simp_all add: feed_episode_def)
  have audio1: "\<forall>h. fetch ?rt h (VStr (js ''http://h/1.mp3'')) = Inr not_found_response"
    "\<not> ok not_found_response" "status not_found_response = 404"
    by (simp_all add: two_item_runtime_fields two_item_net_answers not_found_response_def)
  have audio2: "\<forall>h. fetch ?rt h (VStr (js ''http://h/2.mp3'')) = Inr (ok_response [1, 2, 3])"
    "ok (ok_response [1, 2, 3])" "arrayBuffer (ok_response [1, 2, 3]) = Inr [1, 2, 3]"
    by (simp_all add: two_item_runtime_fields two_item_net_answers ok_response_def)
  have writes: "\<forall>h d. writeFile_fault ?rt h (audio_path ?rt out_directories (js ''Two'')) d = None"
    "\<forall>h p c. writeTextFile_fault ?rt h p c = None"
    by (simp_all add: two_item_runtime_fields)
  have paths: "distinct [audio_path ?rt out_directories (js ''One''),
        audio_path ?rt out_directories (js ''Two''),
        json_path ?rt out_directories (js ''One''), json_path ?rt out_directories (js ''Two'')]"
    "{image_path ?rt out_directories (js ''One'') [], image_path ?rt out_directories (js ''Two'') []}
       \<inter> {audio_path ?rt out_directories (js ''One''), audio_path ?rt out_directories (js ''Two''),
            json_path ?rt out_directories (js ''One''), json_path ?rt out_directories (js ''Two'')} = {}"
    unfolding two_item_paths by simp_all
  have texts: "JSON_stringify ?rt ?ep1 = js ''One''" "JSON_stringify ?rt ?ep2 = js ''Two''"
    "statusText not_found_response = js ''Not Found''"
    by (simp_all add: two_item_runtime_fields title_text_def feed_episode_def not_found_response_def)
  have places: "audioDir out_directories = js ''out/audio''"
    "imageDir out_directories = js ''out/images''" "jsonDir out_directories = js ''out/json''"
    by (simp_all add: out_directories_def)
  from two_item_run [OF dirs no_dir_fault feed parsed ep1 ep2 audio1 audio2 writes paths,
      of empty_world]
  show ?thesis
    unfolding two_item_paths texts places
    by (auto simp: js_append [symmetric] empty_world_def)
qed

end
